theory Spec2Isabelle
  imports Complex_Main
begin

section \<open>Python values and exceptions\<close>

text \<open>
  The request and response messages of the API are JSON documents. A Python value that
  can occur in one is a number, a string, a list or a dictionary. Numbers carry their
  exact value: Python's \<^verbatim>\<open>==\<close> compares an int and a finite float by value, which
  is what equality on \<^typ>\<open>rat\<close> does. A dictionary keeps its keys in insertion order;
  Python compares two dictionaries without regard to that order, equality here does not,
  and the values that the pipelines compare hold no dictionaries.
\<close>

datatype pyval =
    PNum rat
  | PStr string
  | PList "pyval list"
  | PDict "(string \<times> pyval) list"

datatype exn =
    AttributeError
  | TypeError
  | IndexError
  | KeyError
  | ZeroDivisionError
  | MultipleResultsFound
  | ProgrammingError
  | IntegrityError

text \<open>\<^verbatim>\<open>len(x)\<close> and \<^verbatim>\<open>x[0]\<close> on a Python value.\<close>

fun py_len :: "pyval \<Rightarrow> exn + nat" where
  "py_len (PNum _) = Inl TypeError"
| "py_len (PStr s) = Inr (length s)"
| "py_len (PList xs) = Inr (length xs)"
| "py_len (PDict d) = Inr (length d)"

fun py_item0 :: "pyval \<Rightarrow> exn + pyval" where
  "py_item0 (PNum _) = Inl TypeError"
| "py_item0 (PStr []) = Inl IndexError"
| "py_item0 (PStr (c # _)) = Inr (PStr [c])"
| "py_item0 (PList []) = Inl IndexError"
| "py_item0 (PList (x # _)) = Inr x"
| "py_item0 (PDict _) = Inl KeyError"

section \<open>api\_utils: compaction of connection and value groups\<close>

text \<open>
  \<^verbatim>\<open>u.index(x)\<close>: the position of the first element equal to \<open>x\<close>. The source calls it
  only after \<^verbatim>\<open>x in u\<close> has succeeded.
\<close>

fun index_of :: "'a list \<Rightarrow> 'a \<Rightarrow> nat" where
  "index_of [] x = 0"
| "index_of (y # ys) x = (if y = x then 0 else Suc (index_of ys x))"

text \<open>
  Lines 163--167 of \<^verbatim>\<open>unique_ever_seen\<close>: the selector entry already stored is wrapped
  in a list unless it is one, and the new selector element is appended to it as one
  element. Where the stored entry is a list, Python appends to the list object that the
  caller passed in; the functions here return values, which are the values Python returns
  as long as no list object occurs twice in the arguments.
\<close>

fun append_selector :: "pyval \<Rightarrow> pyval \<Rightarrow> pyval" where
  "append_selector (PList us) selector_element = PList (us @ [selector_element])"
| "append_selector us selector_element = PList [us, selector_element]"

fun unique_ever_seen_loop ::
  "(pyval \<times> pyval) list \<Rightarrow> pyval list \<Rightarrow> pyval list \<Rightarrow> pyval list \<times> pyval list" where
  "unique_ever_seen_loop [] u s = (u, s)"
| "unique_ever_seen_loop ((iterable_element, selector_element) # rest) u s =
     (if iterable_element \<notin> set u
      then unique_ever_seen_loop rest (u @ [iterable_element]) (s @ [selector_element])
      else unique_ever_seen_loop rest u
             (s[index_of u iterable_element :=
                  append_selector (s ! index_of u iterable_element) selector_element]))"

definition unique_ever_seen :: "pyval list \<Rightarrow> pyval list \<Rightarrow> pyval list \<times> pyval list" where
  "unique_ever_seen iterable selector = unique_ever_seen_loop (zip iterable selector) [] []"

text \<open>
  One dictionary of the response: the singular key with the only member when the
  connection group has length one, the plural key with the whole group otherwise.
\<close>

definition group_dict :: "pyval \<Rightarrow> pyval \<Rightarrow> exn + (string \<times> pyval) list" where
  "group_dict connection_group value_group =
     (case py_len connection_group of
        Inl e \<Rightarrow> Inl e
      | Inr n \<Rightarrow>
          if n = 1
          then (case py_item0 connection_group of
                  Inl e \<Rightarrow> Inl e
                | Inr c \<Rightarrow> Inr [(''connection'', c), (''values'', value_group)])
          else Inr [(''connections'', connection_group), (''values'', value_group)])"

fun groups_loop :: "(pyval \<times> pyval) list \<Rightarrow> pyval list \<Rightarrow> exn + pyval list" where
  "groups_loop [] groups = Inr groups"
| "groups_loop ((connection_group, value_group) # rest) groups =
     (case group_dict connection_group value_group of
        Inl e \<Rightarrow> Inl e
      | Inr g \<Rightarrow> groups_loop rest (groups @ [PDict g]))"

definition groups_to_dict :: "pyval list \<Rightarrow> pyval list \<Rightarrow> exn + (string \<times> pyval) list" where
  "groups_to_dict connection_groups value_groups =
     (case unique_ever_seen value_groups connection_groups of
        ([value_group], [connection_group]) \<Rightarrow> group_dict connection_group value_group
      | (value_groups', connection_groups') \<Rightarrow>
          (case groups_loop (zip connection_groups' value_groups') [] of
             Inl e \<Rightarrow> Inl e
           | Inr groups \<Rightarrow> Inr [(''groups'', PList groups)]))"

section \<open>Dates and durations\<close>

text \<open>
  A \<^verbatim>\<open>datetime\<close> and a \<^verbatim>\<open>timedelta\<close> are whole numbers of microseconds; all datetimes
  of one request carry the time zone of \<^verbatim>\<open>start\<close>, so their sums and differences are
  sums and differences of these numbers. The range limits of the two Python types are
  left out. Dividing a \<^verbatim>\<open>timedelta\<close> by an int rounds to the nearest microsecond, a tie
  to the even one (\<^verbatim>\<open>_divide_and_round\<close> of the standard library), and raises on zero.
\<close>

type_synonym datetime = int
type_synonym timedelta = int

definition divide_and_round :: "int \<Rightarrow> int \<Rightarrow> int" where
  "divide_and_round a b =
     (let q = a div b; r = (a mod b) * 2;
          greater_than_half = (if b > 0 then r > b else r < b)
      in if greater_than_half \<or> (r = b \<and> q mod 2 = 1) then q + 1 else q)"

definition timedelta_truediv :: "timedelta \<Rightarrow> int \<Rightarrow> exn + timedelta" where
  "timedelta_truediv td n =
     (if n = 0 then Inl ZeroDivisionError else Inr (divide_and_round td n))"

section \<open>responses\<close>

type_synonym response = "(string \<times> pyval) list \<times> nat"

text \<open>
  The decorator \<^verbatim>\<open>BaseMessage\<close>: every positional argument is appended to the base
  message after a space.
\<close>

definition BaseMessage :: "string \<Rightarrow> string list \<Rightarrow> string" where
  "BaseMessage base_message args = foldl (\<lambda>message a. message @ '' '' @ a) base_message args"

definition already_received_and_successfully_processed :: "string list \<Rightarrow> response" where
  "already_received_and_successfully_processed args =
     ([(''results'', PStr ''Rejected''),
       (''status'', PStr ''ALREADY_RECEIVED_AND_SUCCESSFULLY_PROCESSED''),
       (''message'', PStr (BaseMessage
          ''Some of the data has already been received and successfully processed.'' args))],
      400)"

definition invalid_domain :: "string list \<Rightarrow> response" where
  "invalid_domain args =
     ([(''result'', PStr ''Rejected''),
       (''status'', PStr ''INVALID_DOMAIN''),
       (''message'', PStr (BaseMessage
          (''Connections, sensors and markets should be identified using the EA1 addressing scheme recommended by USEF. ''
           @ ''For example:''
           @ '' '' @ [CHR 0x27] @ ''ea1.2018-06.com.a1-bvp:<owner-id>:<asset-id>'' @ [CHR 0x27]
           @ '' '' @ [CHR 0x27] @ ''ea1.2018-06.com.a1-bvp:temperature:<latitude>:<longitude>'' @ [CHR 0x27]
           @ '' '' @ [CHR 0x27] @ ''ea1.2018-06.com.a1-bvp:<market_name>'' @ [CHR 0x27]) args))],
      400)"

definition power_value_too_big :: "string list \<Rightarrow> response" where
  "power_value_too_big args =
     ([(''result'', PStr ''Rejected''),
       (''status'', PStr ''POWER_VALUE_TOO_BIG''),
       (''message'', PStr (BaseMessage ''One or more power values are too big.'' args))],
      400)"

definition power_value_too_small :: "string list \<Rightarrow> response" where
  "power_value_too_small args =
     ([(''result'', PStr ''Rejected''),
       (''status'', PStr ''POWER_VALUE_TOO_SMALL''),
       (''message'', PStr (BaseMessage ''One or more power values are too small.'' args))],
      400)"

definition unrecognized_connection_group :: "string list \<Rightarrow> response" where
  "unrecognized_connection_group args =
     ([(''result'', PStr ''Rejected''),
       (''status'', PStr ''UNRECOGNIZED_CONNECTION_GROUP''),
       (''message'', PStr (BaseMessage
          ''One or more connections in your request were not found in your account.'' args))],
      400)"

definition request_processed :: "string list \<Rightarrow> response" where
  "request_processed args =
     ([(''status'', PStr ''PROCESSED''),
       (''message'', PStr (BaseMessage ''Request has been processed.'' args))],
      200)"

text \<open>The value under the key \<^verbatim>\<open>status\<close> of a response.\<close>

definition status_of :: "response \<Rightarrow> pyval option" where
  "status_of r = map_of (fst r) ''status''"

section \<open>The data the pipelines read and write\<close>

record asset =
  a_id :: int
  a_name :: string
  is_pure_consumer :: bool
  is_pure_producer :: bool
  entity_address :: string

record data_source =
  ds_id :: int
  ds_user :: int

text \<open>The dictionary that parsing the entity address of a connection returns.\<close>

record connection =
  owner_id :: int
  asset_id :: int

text \<open>A \<^verbatim>\<open>Power\<close> object, with the keyword arguments of its constructor.\<close>

record power =
  p_datetime :: datetime
  p_value :: rat
  p_horizon :: timedelta
  p_asset_id :: int
  p_data_source_id :: int

text \<open>
  Modelled from the spec: the objects that \<^verbatim>\<open>make_forecasting_jobs\<close> returns. The spec
  describes a job by the kind of its metric, the id of the asset, and the start and the end
  of the interval written.
\<close>

record forecasting_job =
  j_kind :: string
  j_asset_id :: int
  j_start :: datetime
  j_end :: datetime

datatype db_model = PowerObject power | JobObject forecasting_job

text \<open>
  What a request finds around it. The functions that the two pipelines import from the
  validators, the resource services, the models and \<^verbatim>\<open>isodate\<close>
  (\<^verbatim>\<open>validate_entity_address\<close>, \<^verbatim>\<open>get_assets\<close>, \<^verbatim>\<open>make_forecasting_jobs\<close>, \<^verbatim>\<open>Power.collect\<close>,
  the two formatters) are parameters; the tables that the queries read are lists of rows;
  \<open>current_user\<close> is the id of the user of the session; \<open>BVP_MODE\<close> is the value of
  \<^verbatim>\<open>current_app.config.get("BVP_MODE", "")\<close>. Calls of the logger change neither what is
  returned nor what is stored, and are left out.
\<close>

record environment =
  validate_entity_address :: "string \<Rightarrow> string \<Rightarrow> connection option"
  get_assets :: "asset list"
  asset_rows :: "asset list"
  data_source_rows :: "data_source list"
  current_user :: int
  make_forecasting_jobs :: "string \<Rightarrow> int \<Rightarrow> datetime \<Rightarrow> datetime \<Rightarrow> forecasting_job list"
  BVP_MODE :: string
  Power_collect ::
    "string list \<Rightarrow> datetime \<times> datetime \<Rightarrow> string \<Rightarrow> timedelta option \<times> timedelta option
       \<Rightarrow> bool \<Rightarrow> int list option \<Rightarrow> int list \<Rightarrow> bool \<Rightarrow> (string \<times> rat list) list"
  datetime_isoformat :: "datetime \<Rightarrow> string"
  duration_isoformat :: "timedelta \<Rightarrow> string"

text \<open>\<^verbatim>\<open>Query.one_or_none()\<close> on the rows a filter selected.\<close>

fun one_or_none :: "'a list \<Rightarrow> exn + 'a option" where
  "one_or_none [] = Inr None"
| "one_or_none [x] = Inr (Some x)"
| "one_or_none (x # y # _) = Inl MultipleResultsFound"

subsection \<open>The database session\<close>

text \<open>
  Modelled from the spec: the database session \<^verbatim>\<open>db.session\<close> of \<^verbatim>\<open>bvp.data.config\<close>.
  The spec gives the storage engine a bulk insert that raises a uniqueness violation, a
  merge write that replaces conflicting rows, and a transaction that commits as a whole or
  not at all; the identity of a measurement is \<open>(datetime, assetId)\<close>, which is also the
  primary key that the migration \<^verbatim>\<open>45d937300b0f\<close> gives the table. No identity is given for
  a forecasting job. \<open>committed\<close> holds the durable rows, \<open>transaction\<close> the rows as the
  open transaction sees them. A statement that raises leaves both as they were.
\<close>

record session =
  committed :: "db_model list"
  transaction :: "db_model list"

fun primary_key :: "db_model \<Rightarrow> (datetime \<times> int) option" where
  "primary_key (PowerObject p) = Some (p_datetime p, p_asset_id p)"
| "primary_key (JobObject j) = None"

text \<open>
  Modelled from the spec: \<^verbatim>\<open>db.session.bulk_save_objects\<close>, the bulk insert that raises when
  two rows would share a primary key.
\<close>

definition bulk_save_objects :: "db_model list \<Rightarrow> session \<Rightarrow> exn + session" where
  "bulk_save_objects objects s =
     (if distinct (List.map_filter primary_key (transaction s @ objects))
      then Inr (s\<lparr>transaction := transaction s @ objects\<rparr>)
      else Inl IntegrityError)"

text \<open>
  Modelled from the spec: \<^verbatim>\<open>db.session.merge\<close>, the write that replaces the row with the
  primary key of the object, and inserts the object when there is none.
\<close>

definition merge :: "db_model \<Rightarrow> session \<Rightarrow> session" where
  "merge o1 s =
     (case primary_key o1 of
        None \<Rightarrow> s\<lparr>transaction := transaction s @ [o1]\<rparr>
      | Some k \<Rightarrow>
          if Some k \<in> set (map primary_key (transaction s))
          then s\<lparr>transaction := map (\<lambda>r. if primary_key r = Some k then o1 else r) (transaction s)\<rparr>
          else s\<lparr>transaction := transaction s @ [o1]\<rparr>)"

text \<open>
  Modelled from the spec: \<^verbatim>\<open>db.session.commit\<close> and \<^verbatim>\<open>db.session.rollback\<close>, which make the
  rows of the transaction durable, or discard them.
\<close>

definition commit :: "session \<Rightarrow> session" where
  "commit s = s\<lparr>committed := transaction s\<rparr>"

definition rollback :: "session \<Rightarrow> session" where
  "rollback s = s\<lparr>transaction := committed s\<rparr>"

subsection \<open>api\_utils: save\_to\_database\<close>

definition save_to_database :: "db_model list \<Rightarrow> bool \<Rightarrow> session \<Rightarrow> exn + session" where
  "save_to_database objects overwrite s =
     (if \<not> overwrite
      then bulk_save_objects objects s
      else Inr (foldl (\<lambda>s' o1. merge o1 s') s objects))"

section \<open>v1 implementations: posting meter data\<close>

text \<open>
  A step of the pipeline raises an exception, returns a response to the caller at once,
  or goes on with a value.
\<close>

datatype 'a outcome = Raised exn | Returned response | Continue 'a

text \<open>
  Lines 260--277, the loop over \<^verbatim>\<open>enumerate(value_group)\<close>: \<open>n\<close> is
  \<^verbatim>\<open>len(value_group)\<close> of the whole group, \<open>j\<close> the index of the value at hand. The loop
  carries the measurements built so far and \<^verbatim>\<open>end\<close>.
\<close>

fun power_loop ::
  "timedelta \<Rightarrow> bool \<Rightarrow> datetime \<Rightarrow> timedelta \<Rightarrow> asset \<Rightarrow> data_source option \<Rightarrow> int \<Rightarrow> nat
     \<Rightarrow> rat list \<Rightarrow> power list \<times> datetime \<Rightarrow> exn + power list \<times> datetime" where
  "power_loop horizon rolling start duration asset data_source n j []
       (power_measurements, end_dt) = Inr (power_measurements, end_dt)"
| "power_loop horizon rolling start duration asset data_source n j (value # rest)
       (power_measurements, end_dt) =
     (case timedelta_truediv (int j * duration) n of
        Inl e \<Rightarrow> Inl e
      | Inr jd \<Rightarrow>
          (case (if rolling then Inr horizon
                 else (case timedelta_truediv duration n of
                         Inl e \<Rightarrow> Inl e
                       | Inr w \<Rightarrow> Inr (horizon - ((start + duration) - ((start + jd) + w)))))
           of
             Inl e \<Rightarrow> Inl e
           | Inr h \<Rightarrow>
               (case data_source of
                  None \<Rightarrow> Inl AttributeError
                | Some ds \<Rightarrow>
                    power_loop horizon rolling start duration asset data_source n (Suc j) rest
                      (power_measurements @
                         [\<lparr>p_datetime = start + jd, p_value = value * - 1, p_horizon = h,
                           p_asset_id = a_id asset, p_data_source_id = ds_id ds\<rparr>],
                       start + jd))))"

text \<open>
  Lines 228--282, the body of the loop over the connections of one group. Reading an
  attribute of the \<^verbatim>\<open>None\<close> that \<^verbatim>\<open>one_or_none\<close> returned raises \<^verbatim>\<open>AttributeError\<close>.
\<close>

definition post_connection ::
  "environment \<Rightarrow> int list \<Rightarrow> data_source option \<Rightarrow> timedelta \<Rightarrow> bool \<Rightarrow> datetime \<Rightarrow> timedelta
     \<Rightarrow> rat list \<Rightarrow> string \<Rightarrow> power list \<times> forecasting_job list
     \<Rightarrow> (power list \<times> forecasting_job list) outcome" where
  "post_connection env user_asset_ids data_source horizon rolling start duration value_group
       connection acc =
     (case validate_entity_address env connection ''connection'' of
        None \<Rightarrow> Returned (invalid_domain [])
      | Some conn \<Rightarrow>
          if asset_id conn \<in> set user_asset_ids
          then
            (case one_or_none (filter (\<lambda>a. a_id a = asset_id conn) (asset_rows env)) of
               Inl e \<Rightarrow> Raised e
             | Inr None \<Rightarrow> Raised AttributeError
             | Inr (Some asset) \<Rightarrow>
                 if is_pure_consumer asset \<and> list_ex (\<lambda>v. v < 0) value_group
                 then Returned (power_value_too_small
                        [''Connection '' @ entity_address asset
                         @ '' is registered as a pure consumer and can only receive non-negative values.''])
                 else if is_pure_producer asset \<and> list_ex (\<lambda>v. v > 0) value_group
                 then Returned (power_value_too_big
                        [''Connection '' @ entity_address asset
                         @ '' is registered as a pure producer and can only receive non-positive values.''])
                 else
                   (case power_loop horizon rolling start duration asset data_source
                           (int (length value_group)) 0 value_group (fst acc, start) of
                      Inl e \<Rightarrow> Raised e
                    | Inr (power_measurements, end_dt) \<Rightarrow>
                        Continue
                          (power_measurements,
                           if end_dt > start
                           then snd acc @ make_forecasting_jobs env ''Power'' (asset_id conn) start end_dt
                           else snd acc)))
          else Returned (unrecognized_connection_group []))"

fun connection_loop ::
  "environment \<Rightarrow> int list \<Rightarrow> data_source option \<Rightarrow> timedelta \<Rightarrow> bool \<Rightarrow> datetime \<Rightarrow> timedelta
     \<Rightarrow> rat list \<Rightarrow> string list \<Rightarrow> power list \<times> forecasting_job list
     \<Rightarrow> (power list \<times> forecasting_job list) outcome" where
  "connection_loop env user_asset_ids data_source horizon rolling start duration value_group []
       acc = Continue acc"
| "connection_loop env user_asset_ids data_source horizon rolling start duration value_group
       (connection # rest) acc =
     (case post_connection env user_asset_ids data_source horizon rolling start duration
             value_group connection acc of
        Raised e \<Rightarrow> Raised e
      | Returned r \<Rightarrow> Returned r
      | Continue acc' \<Rightarrow>
          connection_loop env user_asset_ids data_source horizon rolling start duration
            value_group rest acc')"

text \<open>Lines 225--282, the loop over the zipped connection groups and value groups.\<close>

fun group_loop ::
  "environment \<Rightarrow> int list \<Rightarrow> data_source option \<Rightarrow> timedelta \<Rightarrow> bool \<Rightarrow> datetime \<Rightarrow> timedelta
     \<Rightarrow> (string list \<times> rat list) list \<Rightarrow> power list \<times> forecasting_job list
     \<Rightarrow> (power list \<times> forecasting_job list) outcome" where
  "group_loop env user_asset_ids data_source horizon rolling start duration [] acc =
     Continue acc"
| "group_loop env user_asset_ids data_source horizon rolling start duration
       ((connection_group, value_group) # rest) acc =
     (case connection_loop env user_asset_ids data_source horizon rolling start duration
             value_group connection_group acc of
        Raised e \<Rightarrow> Raised e
      | Returned r \<Rightarrow> Returned r
      | Continue acc' \<Rightarrow>
          group_loop env user_asset_ids data_source horizon rolling start duration rest acc')"

text \<open>
  Lines 286--288, the body of the \<^verbatim>\<open>try\<close>: the exception raised, if any, and the session
  as the statement that raised found it.
\<close>

definition try_save ::
  "power list \<Rightarrow> forecasting_job list \<Rightarrow> session \<Rightarrow> exn option \<times> session" where
  "try_save power_measurements forecasting_jobs s =
     (case save_to_database (map PowerObject power_measurements) False s of
        Inl e \<Rightarrow> (Some e, s)
      | Inr s1 \<Rightarrow>
          (case save_to_database (map JobObject forecasting_jobs) False s1 of
             Inl e \<Rightarrow> (Some e, s1)
           | Inr s2 \<Rightarrow> (None, commit s2)))"

text \<open>Lines 284--301: the write, and what follows an \<^verbatim>\<open>IntegrityError\<close>.\<close>

definition save_measurements ::
  "environment \<Rightarrow> power list \<Rightarrow> forecasting_job list \<Rightarrow> session \<Rightarrow> (exn + response) \<times> session" where
  "save_measurements env power_measurements forecasting_jobs s =
     (case try_save power_measurements forecasting_jobs s of
        (None, s1) \<Rightarrow> (Inr (request_processed []), s1)
      | (Some e, s1) \<Rightarrow>
          if e = IntegrityError
          then
            (let s2 = rollback s1 in
             if BVP_MODE env = ''play''
             then
               (case save_to_database (map PowerObject power_measurements) True s2 of
                  Inl e' \<Rightarrow> (Inl e', s2)
                | Inr s3 \<Rightarrow>
                    (case save_to_database (map JobObject forecasting_jobs) True s3 of
                       Inl e' \<Rightarrow> (Inl e', s3)
                     | Inr s4 \<Rightarrow> (Inr (request_processed []), commit s4)))
             else (Inr (already_received_and_successfully_processed []), s2))
          else (Inl e, s1))"

definition create_connection_and_value_groups ::
  "environment \<Rightarrow> session \<Rightarrow> string \<Rightarrow> string list list \<Rightarrow> rat list list \<Rightarrow> timedelta \<Rightarrow> bool
     \<Rightarrow> datetime \<Rightarrow> timedelta \<Rightarrow> (exn + response) \<times> session" where
  "create_connection_and_value_groups env s unit generic_asset_name_groups value_groups horizon
       rolling start duration =
     (case one_or_none (filter (\<lambda>d. ds_user d = current_user env) (data_source_rows env)) of
        Inl e \<Rightarrow> (Inl e, s)
      | Inr data_source \<Rightarrow>
          (case group_loop env (map a_id (get_assets env)) data_source horizon rolling start
                  duration (zip generic_asset_name_groups value_groups) ([], []) of
             Raised e \<Rightarrow> (Inl e, s)
           | Returned r \<Rightarrow> (Inr r, s)
           | Continue (power_measurements, forecasting_jobs) \<Rightarrow>
               save_measurements env power_measurements forecasting_jobs s))"

section \<open>api\_utils: names to entity addresses\<close>

text \<open>Operations of Python on the values of a message, with a string as the key.\<close>

fun is_substring :: "string \<Rightarrow> string \<Rightarrow> bool" where
  "is_substring k [] = (k = [])"
| "is_substring k (c # cs) = (take (length k) (c # cs) = k \<or> is_substring k cs)"

fun py_contains :: "pyval \<Rightarrow> string \<Rightarrow> exn + bool" where
  "py_contains (PNum _) k = Inl TypeError"
| "py_contains (PStr s) k = Inr (is_substring k s)"
| "py_contains (PList xs) k = Inr (PStr k \<in> set xs)"
| "py_contains (PDict d) k = Inr (k \<in> set (map fst d))"

fun py_getitem :: "pyval \<Rightarrow> string \<Rightarrow> exn + pyval" where
  "py_getitem (PDict d) k = (case map_of d k of None \<Rightarrow> Inl KeyError | Some v \<Rightarrow> Inr v)"
| "py_getitem _ k = Inl TypeError"

fun dict_set :: "(string \<times> pyval) list \<Rightarrow> string \<Rightarrow> pyval \<Rightarrow> (string \<times> pyval) list" where
  "dict_set [] k v = [(k, v)]"
| "dict_set ((k', v') # d) k v = (if k' = k then (k, v) # d else (k', v') # dict_set d k v)"

fun py_setitem :: "pyval \<Rightarrow> string \<Rightarrow> pyval \<Rightarrow> exn + pyval" where
  "py_setitem (PDict d) k v = Inr (PDict (dict_set d k v))"
| "py_setitem _ k v = Inl TypeError"

fun py_iter :: "pyval \<Rightarrow> exn + pyval list" where
  "py_iter (PNum _) = Inl TypeError"
| "py_iter (PStr s) = Inr (map (\<lambda>c. PStr [c]) s)"
| "py_iter (PList xs) = Inr xs"
| "py_iter (PDict d) = Inr (map (\<lambda>kv. PStr (fst kv)) d)"

fun parse_as_list :: "pyval \<Rightarrow> pyval list" where
  "parse_as_list (PStr s) = [PStr s]"
| "parse_as_list (PList xs) = xs"
| "parse_as_list _ = []"

text \<open>
  \<^verbatim>\<open>asset_replace_name_with_id\<close>. The query compares the name column with the value at
  hand; a value that is not a string has no such comparison and the query raises.
\<close>

fun asset_replace_name_with_id :: "environment \<Rightarrow> pyval list \<Rightarrow> pyval list \<Rightarrow> exn + pyval list" where
  "asset_replace_name_with_id env [] connections_as_ea = Inr connections_as_ea"
| "asset_replace_name_with_id env (asset_name # rest) connections_as_ea =
     (case asset_name of
        PStr nm \<Rightarrow>
          (case one_or_none (filter (\<lambda>a. a_name a = nm) (asset_rows env)) of
             Inl e \<Rightarrow> Inl e
           | Inr None \<Rightarrow> Inl AttributeError
           | Inr (Some asset) \<Rightarrow>
               asset_replace_name_with_id env rest (connections_as_ea @ [PStr (entity_address asset)]))
      | _ \<Rightarrow> Inl ProgrammingError)"

text \<open>
  The assignment that \<^verbatim>\<open>message_replace_name_with_ea\<close> makes for the key \<open>k\<close> of a message
  or of one of its groups.
\<close>

definition replace_names_at :: "environment \<Rightarrow> pyval \<Rightarrow> string \<Rightarrow> exn + pyval" where
  "replace_names_at env m k =
     (case py_getitem m k of
        Inl e \<Rightarrow> Inl e
      | Inr v \<Rightarrow>
          (case asset_replace_name_with_id env (parse_as_list v) [] of
             Inl e \<Rightarrow> Inl e
           | Inr eas \<Rightarrow> py_setitem m k (PList eas)))"

definition replace_names_in_group :: "environment \<Rightarrow> pyval \<Rightarrow> exn + pyval" where
  "replace_names_in_group env grp =
     (case py_contains grp ''connection'' of
        Inl e \<Rightarrow> Inl e
      | Inr in1 \<Rightarrow>
          if in1 then replace_names_at env grp ''connection''
          else (case py_contains grp ''connections'' of
                  Inl e \<Rightarrow> Inl e
                | Inr in2 \<Rightarrow>
                    if in2 then replace_names_at env grp ''connections'' else Inr grp))"

fun replace_names_in_groups :: "environment \<Rightarrow> pyval list \<Rightarrow> pyval list \<Rightarrow> exn + pyval list" where
  "replace_names_in_groups env [] eas = Inr eas"
| "replace_names_in_groups env (grp # rest) eas =
     (case replace_names_in_group env grp of
        Inl e \<Rightarrow> Inl e
      | Inr grp' \<Rightarrow> replace_names_in_groups env rest (eas @ [grp']))"

text \<open>
  \<^verbatim>\<open>message_replace_name_with_ea\<close>. Only a group that is a dictionary is ever assigned
  to, so the groups of the copy change only where the groups are a list.
\<close>

definition message_replace_name_with_ea ::
  "environment \<Rightarrow> (string \<times> pyval) list \<Rightarrow> exn + (string \<times> pyval) list" where
  "message_replace_name_with_ea env message =
     (if ''connection'' \<in> set (map fst message)
      then (case replace_names_at env (PDict message) ''connection'' of
              Inr (PDict m) \<Rightarrow> Inr m | Inr _ \<Rightarrow> Inl TypeError | Inl e \<Rightarrow> Inl e)
      else if ''connections'' \<in> set (map fst message)
      then (case replace_names_at env (PDict message) ''connections'' of
              Inr (PDict m) \<Rightarrow> Inr m | Inr _ \<Rightarrow> Inl TypeError | Inl e \<Rightarrow> Inl e)
      else if ''groups'' \<in> set (map fst message)
      then (case py_getitem (PDict message) ''groups'' of
              Inl e \<Rightarrow> Inl e
            | Inr gs \<Rightarrow>
                (case py_iter gs of
                   Inl e \<Rightarrow> Inl e
                 | Inr groups \<Rightarrow>
                     (case replace_names_in_groups env groups [] of
                        Inl e \<Rightarrow> Inl e
                      | Inr groups' \<Rightarrow>
                          (case gs of
                             PList _ \<Rightarrow> Inr (dict_set message ''groups'' (PList groups'))
                           | _ \<Rightarrow> Inr message))))
      else Inr message)"

section \<open>v1 implementations: getting meter data\<close>

text \<open>Lines 163--180, the loop over the connections of one group.\<close>

fun asset_names_loop ::
  "environment \<Rightarrow> int list \<Rightarrow> string list \<Rightarrow> string list \<Rightarrow> string list outcome" where
  "asset_names_loop env user_asset_ids [] asset_names = Continue asset_names"
| "asset_names_loop env user_asset_ids (connection # rest) asset_names =
     (case validate_entity_address env connection ''connection'' of
        None \<Rightarrow> Returned (invalid_domain [])
      | Some conn \<Rightarrow>
          if asset_id conn \<in> set user_asset_ids
          then
            (case one_or_none (filter (\<lambda>a. a_id a = asset_id conn) (asset_rows env)) of
               Inl e \<Rightarrow> Raised e
             | Inr None \<Rightarrow> Raised AttributeError
             | Inr (Some asset) \<Rightarrow>
                 asset_names_loop env user_asset_ids rest (asset_names @ [a_name asset]))
          else Returned (unrecognized_connection_group []))"

text \<open>Lines 196--200, the loop over the items of \<^verbatim>\<open>ts_values\<close>.\<close>

fun ts_values_loop ::
  "(string \<times> rat list) list \<Rightarrow> rat list list \<times> string list \<Rightarrow> rat list list \<times> string list" where
  "ts_values_loop [] acc = acc"
| "ts_values_loop ((k, v) # rest) (value_groups, new_connection_groups) =
     ts_values_loop rest
       (value_groups @ [map (\<lambda>x. x * - 1) v], new_connection_groups @ [k])"

text \<open>Lines 159--200, the loop over the connection groups.\<close>

fun collect_loop ::
  "environment \<Rightarrow> int list \<Rightarrow> datetime \<times> datetime \<Rightarrow> string \<Rightarrow> timedelta option \<times> timedelta option
     \<Rightarrow> bool \<Rightarrow> int list option \<Rightarrow> int list \<Rightarrow> string list list
     \<Rightarrow> rat list list \<times> string list \<Rightarrow> (rat list list \<times> string list) outcome" where
  "collect_loop env user_asset_ids query_window resolution horizon_window rolling
       preferred_source_ids fallback_source_ids [] acc = Continue acc"
| "collect_loop env user_asset_ids query_window resolution horizon_window rolling
       preferred_source_ids fallback_source_ids (connections # rest) acc =
     (case asset_names_loop env user_asset_ids connections [] of
        Raised e \<Rightarrow> Raised e
      | Returned r \<Rightarrow> Returned r
      | Continue asset_names \<Rightarrow>
          collect_loop env user_asset_ids query_window resolution horizon_window rolling
            preferred_source_ids fallback_source_ids rest
            (ts_values_loop
               (Power_collect env asset_names query_window resolution horizon_window rolling
                  preferred_source_ids fallback_source_ids False)
               acc))"

text \<open>\<^verbatim>\<open>dict(**response, **d)\<close>: a key given twice is a \<^verbatim>\<open>TypeError\<close>.\<close>

definition dict_of_kwargs ::
  "(string \<times> pyval) list \<Rightarrow> (string \<times> pyval) list \<Rightarrow> exn + (string \<times> pyval) list" where
  "dict_of_kwargs response d =
     (if list_ex (\<lambda>k. k \<in> set (map fst response)) (map fst d)
      then Inl TypeError else Inr (response @ d))"

definition collect_connection_and_value_groups ::
  "environment \<Rightarrow> string \<Rightarrow> string \<Rightarrow> timedelta option \<times> timedelta option \<Rightarrow> datetime \<Rightarrow> timedelta
     \<Rightarrow> string list list \<Rightarrow> int list option \<Rightarrow> int list \<Rightarrow> bool \<Rightarrow> exn + response" where
  "collect_connection_and_value_groups env unit resolution horizon_window start duration
       connection_groups preferred_source_ids fallback_source_ids rolling =
     (case collect_loop env (map a_id (get_assets env)) (start, start + duration) resolution
             horizon_window rolling preferred_source_ids fallback_source_ids connection_groups
             ([], []) of
        Raised e \<Rightarrow> Inl e
      | Returned r \<Rightarrow> Inr r
      | Continue (value_groups, new_connection_groups) \<Rightarrow>
          (case groups_to_dict (map PStr new_connection_groups)
                  (map (\<lambda>vs. PList (map PNum vs)) value_groups) of
             Inl e \<Rightarrow> Inl e
           | Inr response \<Rightarrow>
               (case message_replace_name_with_ea env response of
                  Inl e \<Rightarrow> Inl e
                | Inr response' \<Rightarrow>
                    (case dict_of_kwargs
                            (dict_set
                               (dict_set
                                  (dict_set response' ''start'' (PStr (datetime_isoformat env start)))
                                  ''duration'' (PStr (duration_isoformat env duration)))
                               ''unit'' (PStr unit))
                            (fst (request_processed [])) of
                       Inl e \<Rightarrow> Inl e
                     | Inr d \<Rightarrow> Inr (d, snd (request_processed []))))))"

section \<open>The spec's formulas and example data\<close>

text \<open>
  The rule of the horizon calculator in the words of the spec, with the division of
  Python: \<open>dt\<^sub>j = start + j \<cdot> duration / N\<close>, and
  \<open>h\<^sub>j = horizon - ((start + duration) - (dt\<^sub>j + duration / N))\<close> unless the horizon is
  rolling. \<open>spec_power\<close> is the measurement the spec builds for the value \<open>v\<close> at index
  \<open>j\<close>.
\<close>

definition spec_dt :: "datetime \<Rightarrow> timedelta \<Rightarrow> nat \<Rightarrow> nat \<Rightarrow> datetime" where
  "spec_dt start duration N j = start + divide_and_round (int j * duration) (int N)"

definition spec_horizon ::
  "timedelta \<Rightarrow> bool \<Rightarrow> datetime \<Rightarrow> timedelta \<Rightarrow> nat \<Rightarrow> nat \<Rightarrow> timedelta" where
  "spec_horizon horizon rolling start duration N j =
     (if rolling then horizon
      else horizon - ((start + duration)
             - (spec_dt start duration N j + divide_and_round duration (int N))))"

definition spec_power ::
  "timedelta \<Rightarrow> bool \<Rightarrow> datetime \<Rightarrow> timedelta \<Rightarrow> int \<Rightarrow> int \<Rightarrow> nat \<Rightarrow> nat \<times> rat \<Rightarrow> power" where
  "spec_power horizon rolling start duration aid did N jv =
     \<lparr>p_datetime = spec_dt start duration N (fst jv), p_value = - snd jv,
      p_horizon = spec_horizon horizon rolling start duration N (fst jv),
      p_asset_id = aid, p_data_source_id = did\<rparr>"

text \<open>
  An account with a pure consumer (asset 1) and a pure producer (asset 2). Asset 3 is
  in the account as well, but the asset table has no row for it.
\<close>

definition consumer1 :: asset where
  "consumer1 = \<lparr>a_id = 1, a_name = ''A'', is_pure_consumer = True, is_pure_producer = False,
                 entity_address = ''ea1.2018-06.com.a1-bvp:1:1''\<rparr>"

definition producer2 :: asset where
  "producer2 = \<lparr>a_id = 2, a_name = ''B'', is_pure_consumer = False, is_pure_producer = True,
                 entity_address = ''ea1.2018-06.com.a1-bvp:1:2''\<rparr>"

definition missing3 :: asset where
  "missing3 = \<lparr>a_id = 3, a_name = ''C'', is_pure_consumer = False, is_pure_producer = False,
                entity_address = ''ea1.2018-06.com.a1-bvp:1:3''\<rparr>"

definition source7 :: data_source where
  "source7 = \<lparr>ds_id = 7, ds_user = 5\<rparr>"

definition example_address :: "string \<Rightarrow> string \<Rightarrow> connection option" where
  "example_address c entity_type =
     (if c = ''ea1.2018-06.com.a1-bvp:1:1'' then Some \<lparr>owner_id = 1, asset_id = 1\<rparr>
      else if c = ''ea1.2018-06.com.a1-bvp:1:2'' then Some \<lparr>owner_id = 1, asset_id = 2\<rparr>
      else if c = ''ea1.2018-06.com.a1-bvp:1:3'' then Some \<lparr>owner_id = 1, asset_id = 3\<rparr>
      else None)"

definition example_env :: "string \<Rightarrow> environment" where
  "example_env mode =
     \<lparr>validate_entity_address = example_address,
      get_assets = [consumer1, producer2, missing3],
      asset_rows = [consumer1, producer2],
      data_source_rows = [source7],
      current_user = 5,
      make_forecasting_jobs =
        (\<lambda>kind aid s e. [\<lparr>j_kind = kind, j_asset_id = aid, j_start = s, j_end = e\<rparr>]),
      BVP_MODE = mode,
      Power_collect = (\<lambda>names w res hw rolling pref fallb sum_multiple. map (\<lambda>n. (n, [1, - 2])) names),
      datetime_isoformat = (\<lambda>d. ''2018-05-07T00:00:00+00:00''),
      duration_isoformat = (\<lambda>d. ''PT1H'')\<rparr>"

definition empty_session :: session where
  "empty_session = \<lparr>committed = [], transaction = []\<rparr>"

text \<open>One hour and two hours, in microseconds.\<close>

definition hour :: timedelta where
  "hour = 3600000000"

text \<open>
  The measurements that the spec assigns to one connection of a group: one for every
  value of the paired value group, for the asset that the address of the connection
  names and the data source of the writer.
\<close>

definition spec_measurements ::
  "environment \<Rightarrow> data_source option \<Rightarrow> timedelta \<Rightarrow> bool \<Rightarrow> datetime \<Rightarrow> timedelta \<Rightarrow> string
     \<Rightarrow> rat list \<Rightarrow> power list" where
  "spec_measurements env data_source horizon rolling start duration c vg =
     (case (validate_entity_address env c ''connection'', data_source) of
        (Some conn, Some ds) \<Rightarrow>
          map (spec_power horizon rolling start duration (asset_id conn) (ds_id ds) (length vg))
            (List.enumerate 0 vg)
      | _ \<Rightarrow> [])"

text \<open>
  A session in which one measurement of asset 1 at datetime 0 has been committed.
\<close>

definition stored_session :: session where
  "stored_session =
     \<lparr>committed = [PowerObject \<lparr>p_datetime = 0, p_value = - 1, p_horizon = 2 * hour,
                                p_asset_id = 1, p_data_source_id = 7\<rparr>],
      transaction = [PowerObject \<lparr>p_datetime = 0, p_value = - 1, p_horizon = 2 * hour,
                                  p_asset_id = 1, p_data_source_id = 7\<rparr>]\<rparr>"

text \<open>The horizons of the measurements that a run of the loop over the values built.\<close>

definition horizons_of :: "exn + power list \<times> datetime \<Rightarrow> timedelta list" where
  "horizons_of r = (case r of Inl e \<Rightarrow> [] | Inr (pm, e) \<Rightarrow> map p_horizon pm)"

section \<open>Properties of the compaction\<close>

text \<open>
  C8. For the single pair \<open>connection_groups = [[1]]\<close>, \<open>value_groups = [[300, 300, 300]]\<close>,
  \<open>groups_to_dict\<close> returns exactly the flat dictionary
  \<open>{"connection": 1, "values": [300, 300, 300]}\<close>: the singular key, the connection as a
  scalar, and no \<open>groups\<close> nesting.
\<close>

theorem groups_to_dict_single:
  "groups_to_dict [PList [PNum 1]] [PList [PNum 300, PNum 300, PNum 300]] =
     Inr [(''connection'', PNum 1), (''values'', PList [PNum 300, PNum 300, PNum 300])]"
  by (simp add: groups_to_dict_def unique_ever_seen_def group_dict_def)

text \<open>
  C7. For \<open>connection_groups = [[1], [2]]\<close> and the distinct value groups
  \<open>[[300, 300, 300], [400, 400, 400]]\<close>, \<open>groups_to_dict\<close> returns the nested dictionary
  \<open>{"groups": [{"connection": 1, "values": [300, 300, 300]},
  {"connection": 2, "values": [400, 400, 400]}]}\<close>: one entry per distinct value group,
  in the order of first occurrence, each singleton connection group under the singular
  key.
\<close>

theorem groups_to_dict_split:
  "groups_to_dict [PList [PNum 1], PList [PNum 2]]
     [PList [PNum 300, PNum 300, PNum 300], PList [PNum 400, PNum 400, PNum 400]] =
   Inr [(''groups'',
         PList [PDict [(''connection'', PNum 1),
                       (''values'', PList [PNum 300, PNum 300, PNum 300])],
                PDict [(''connection'', PNum 2),
                       (''values'', PList [PNum 400, PNum 400, PNum 400])]])]"
  by (simp add: groups_to_dict_def unique_ever_seen_def group_dict_def)

text \<open>
  C1. For \<open>connection_groups = [[1], [2]]\<close> and the equal value groups
  \<open>[[300, 300, 300], [300, 300, 300]]\<close>, the claim (and the docstring of
  \<open>groups_to_dict\<close>) promise \<open>{"connections": [1, 2], "values": [300, 300, 300]}\<close>. The
  code appends the second connection group to the first as one element, so the list of
  connections it returns is \<open>[1, [2]]\<close>, with a nested list, and differs from the
  promised dictionary.
\<close>

theorem groups_to_dict_merge_nests:
  "groups_to_dict [PList [PNum 1], PList [PNum 2]]
     [PList [PNum 300, PNum 300, PNum 300], PList [PNum 300, PNum 300, PNum 300]] =
   Inr [(''connections'', PList [PNum 1, PList [PNum 2]]),
        (''values'', PList [PNum 300, PNum 300, PNum 300])]
   \<and> groups_to_dict [PList [PNum 1], PList [PNum 2]]
     [PList [PNum 300, PNum 300, PNum 300], PList [PNum 300, PNum 300, PNum 300]] \<noteq>
   Inr [(''connections'', PList [PNum 1, PNum 2]),
        (''values'', PList [PNum 300, PNum 300, PNum 300])]"
  by (simp add: groups_to_dict_def unique_ever_seen_def group_dict_def)

section \<open>The loop over the values of a group\<close>

text \<open>
  With a data source at hand the loop builds, for every value of the group, the
  measurement of the spec, and leaves in \<^verbatim>\<open>end\<close> the datetime of the last one. Without
  one it raises as soon as there is a value.
\<close>

lemma power_loop_step:
  "N \<noteq> 0 \<Longrightarrow>
   power_loop horizon rolling start duration asset (Some ds) (int N) j (v # rest) (pm, e) =
   power_loop horizon rolling start duration asset (Some ds) (int N) (Suc j) rest
     (pm @ [spec_power horizon rolling start duration (a_id asset) (ds_id ds) N (j, v)],
      spec_dt start duration N j)"
  by (simp add: timedelta_truediv_def spec_power_def spec_horizon_def spec_dt_def)

lemma power_loop_Some:
  "N \<noteq> 0 \<Longrightarrow>
   power_loop horizon rolling start duration asset (Some ds) (int N) j rest (pm, e) =
     Inr (pm @ map (spec_power horizon rolling start duration (a_id asset) (ds_id ds) N)
                 (List.enumerate j rest),
          if rest = [] then e else spec_dt start duration N (j + length rest - 1))"
proof (induction rest arbitrary: j pm e)
  case Nil
  then show ?case by simp
next
  case (Cons v rest)
  show ?case
    unfolding power_loop_step [OF Cons.prems] Cons.IH [OF Cons.prems]
    by (cases rest) simp_all
qed

lemma power_loop_None:
  "N \<noteq> 0 \<Longrightarrow>
   power_loop horizon rolling start duration asset None (int N) j rest (pm, e) =
     (if rest = [] then Inr (pm, e) else Inl AttributeError)"
  by (cases rest) (simp_all add: timedelta_truediv_def)

lemma power_loop_group:
  "power_loop horizon rolling start duration asset (Some ds) (int (length vg)) 0 vg (pm, e) =
     Inr (pm @ map (spec_power horizon rolling start duration (a_id asset) (ds_id ds) (length vg))
                 (List.enumerate 0 vg),
          if vg = [] then e else spec_dt start duration (length vg) (length vg - 1))"
proof (cases vg)
  case Nil
  then show ?thesis by simp
next
  case (Cons v rest)
  then have "length vg \<noteq> 0" by simp
  then show ?thesis by (simp add: power_loop_Some)
qed

lemma power_loop_group_None:
  "power_loop horizon rolling start duration asset None (int (length vg)) 0 vg (pm, e) =
     (if vg = [] then Inr (pm, e) else Inl AttributeError)"
proof (cases vg)
  case Nil
  then show ?thesis by simp
next
  case (Cons v rest)
  then have "length vg \<noteq> 0" by simp
  then show ?thesis by (simp add: power_loop_None)
qed

lemma power_loop_never_divides_by_zero:
  "power_loop horizon rolling start duration asset data_source (int (length vg)) 0 vg acc
     \<noteq> Inl ZeroDivisionError"
  by (cases data_source; cases acc) (simp_all add: power_loop_group power_loop_group_None)



section \<open>Horizons\<close>

lemma divide_and_round_dvd:
  "0 < b \<Longrightarrow> b dvd a \<Longrightarrow> divide_and_round a b = a div b"
  by (simp add: divide_and_round_def Let_def)

lemma spec_horizon_dvd:
  assumes "j < N" and "int N dvd duration"
  shows "spec_horizon horizon False start duration N j =
           horizon - int (N - 1 - j) * (duration div int N)"
proof -
  from assms(1) have N: "0 < int N" by simp
  from assms(2) obtain q where q: "duration = int N * q" ..
  have d1: "divide_and_round duration (int N) = q"
    using N q by (simp add: divide_and_round_dvd)
  have e2: "int j * duration = int N * (int j * q)" using q by simp
  have "int N dvd int j * duration" using assms(2) by (rule dvd_mult)
  with N have "divide_and_round (int j * duration) (int N) = (int j * duration) div int N"
    by (rule divide_and_round_dvd)
  also have "\<dots> = int j * q" unfolding e2 using N by simp
  finally have d2: "divide_and_round (int j * duration) (int N) = int j * q" .
  have d3: "duration div int N = q" using N q by simp
  have "int (N - 1 - j) = int N - 1 - int j" using assms(1) by simp
  then show ?thesis
    unfolding spec_horizon_def spec_dt_def d1 d2 d3
    by (simp add: q algebra_simps)
qed

text \<open>
  C4, as amended. For every window \<open>(start, duration)\<close>, every value group of length \<open>N\<close>,
  every index \<open>j < N\<close> and every baseline horizon, the loop (with the data source of the
  writer at hand) builds \<open>N\<close> measurements, and
  the horizon of the one at index \<open>j\<close> is the baseline horizon when \<open>rolling\<close> is true, and
  \<open>horizon - ((start + duration) - (dt\<^sub>j + duration / N))\<close> with \<open>dt\<^sub>j = start + j \<cdot> duration / N\<close>
  when it is false, the division being that of a \<^verbatim>\<open>timedelta\<close> by an int (rounded to the
  microsecond). When moreover \<open>N\<close> divides the duration (in microseconds), this horizon is
  \<open>horizon - (N - 1 - j) \<cdot> duration / N\<close>: the last sub-interval gets the baseline horizon
  exactly, and every earlier sub-interval gets a strictly smaller horizon when the
  duration is positive.
\<close>

theorem horizon_per_value:
  assumes "j < length vg"
  shows "\<exists>pm e.
           power_loop horizon rolling start duration asset (Some ds) (int (length vg)) 0 vg
             ([], start) = Inr (pm, e)
         \<and> length pm = length vg
         \<and> p_horizon (pm ! j) =
             (if rolling then horizon
              else horizon - ((start + duration)
                     - ((start + divide_and_round (int j * duration) (int (length vg)))
                        + divide_and_round duration (int (length vg)))))
         \<and> (\<not> rolling \<and> int (length vg) dvd duration \<longrightarrow>
              p_horizon (pm ! j) = horizon - int (length vg - 1 - j) * (duration div int (length vg))
              \<and> p_horizon (pm ! (length vg - 1)) = horizon
              \<and> (0 < duration \<and> j < length vg - 1 \<longrightarrow> p_horizon (pm ! j) < horizon))"
proof -
  let ?N = "length vg"
  let ?pm = "map (spec_power horizon rolling start duration (a_id asset) (ds_id ds) ?N)
               (List.enumerate 0 vg)"
  have run: "power_loop horizon rolling start duration asset (Some ds) (int ?N) 0 vg ([], start) =
               Inr (?pm, if vg = [] then start else spec_dt start duration ?N (?N - 1))"
    by (simp add: power_loop_group)
  have len: "length ?pm = ?N" by simp
  have nth: "p_horizon (?pm ! i) = spec_horizon horizon rolling start duration ?N i" if "i < ?N" for i
    using that by (simp add: nth_enumerate_eq spec_power_def)
  have h: "p_horizon (?pm ! j) =
             (if rolling then horizon
              else horizon - ((start + duration)
                     - ((start + divide_and_round (int j * duration) (int ?N))
                        + divide_and_round duration (int ?N))))"
    unfolding nth [OF assms] by (simp add: spec_horizon_def spec_dt_def)
  have last: "?N - 1 < ?N" using assms by simp
  have fixed: "p_horizon (?pm ! j) = horizon - int (?N - 1 - j) * (duration div int ?N)
              \<and> p_horizon (?pm ! (?N - 1)) = horizon
              \<and> (0 < duration \<and> j < ?N - 1 \<longrightarrow> p_horizon (?pm ! j) < horizon)"
    if nr: "\<not> rolling" and dv: "int ?N dvd duration"
  proof -
    have a: "p_horizon (?pm ! j) = horizon - int (?N - 1 - j) * (duration div int ?N)"
      unfolding nth [OF assms] using nr assms dv by (simp add: spec_horizon_dvd)
    have b: "p_horizon (?pm ! (?N - 1)) = horizon"
      unfolding nth [OF last] using nr last dv by (simp add: spec_horizon_dvd)
    have c: "p_horizon (?pm ! j) < horizon" if "0 < duration" and "j < ?N - 1"
    proof -
      from dv obtain q where q: "duration = int ?N * q" ..
      from assms have "0 < int ?N" by (cases vg) simp_all
      with that(1) q have "0 < q" by (simp add: zero_less_mult_iff)
      moreover have "duration div int ?N = q" using q \<open>0 < int ?N\<close> by simp
      moreover have "0 < int (?N - 1 - j)" using that(2) by simp
      ultimately show ?thesis unfolding a by simp
    qed
    from a b c show ?thesis by blast
  qed
  from run len h fixed show ?thesis by blast
qed

theorem horizon_per_value_witness:
  "\<exists>pm e. power_loop (2 * hour) False 0 hour consumer1 (Some source7) 4 0 [1, 2, 3, 4] ([], 0) = Inr (pm, e)
     \<and> length pm = 4 \<and> p_horizon (pm ! 0) = 4500000000 \<and> p_horizon (pm ! 3) = 2 * hour"
proof -
  have j: "0 < length [1, 2, 3, 4 :: rat]" by simp
  have dv: "int (length [1, 2, 3, 4 :: rat]) dvd hour" by (simp add: hour_def)
  from horizon_per_value [OF j, of "2 * hour" False 0 hour consumer1 source7] dv
  obtain pm e where
    run: "power_loop (2 * hour) False 0 hour consumer1 (Some source7)
            (int (length [1, 2, 3, 4 :: rat])) 0 [1, 2, 3, 4] ([], 0) = Inr (pm, e)"
    and len: "length pm = length [1, 2, 3, 4 :: rat]"
    and first: "p_horizon (pm ! 0) =
                  2 * hour - int (length [1, 2, 3, 4 :: rat] - 1 - 0) * (hour div int (length [1, 2, 3, 4 :: rat]))"
    and last: "p_horizon (pm ! (length [1, 2, 3, 4 :: rat] - 1)) = 2 * hour"
    by blast
  have "int (length [1, 2, 3, 4 :: rat]) = 4" by simp
  with run have run': "power_loop (2 * hour) False 0 hour consumer1 (Some source7) 4 0
                         [1, 2, 3, 4] ([], 0) = Inr (pm, e)" by metis
  have len': "length pm = 4" using len by simp
  have first': "p_horizon (pm ! 0) = 4500000000" using first by (simp add: hour_def)
  have "length [1, 2, 3, 4 :: rat] - 1 = 3" by simp
  with last have last': "p_horizon (pm ! 3) = 2 * hour" by metis
  from run' len' first' last' show ?thesis by blast
qed

text \<open>
  The claim as stated fails twice. For a window of one hour, four values and a baseline
  of two hours, the horizons are 1h15, 1h30, 1h45 and 2h: the earlier sub-intervals get
  smaller horizons, not larger ones. For a window of three microseconds and two values
  the two quotients are rounded to two microseconds each, and the last horizon is the
  baseline plus one microsecond.
\<close>

theorem horizon_counterexample:
  "horizons_of (power_loop (2 * hour) False 0 hour consumer1 (Some source7) 4 0 [1, 2, 3, 4] ([], 0))
     = [4500000000, 5400000000, 6300000000, 7200000000]
   \<and> horizons_of (power_loop 10 False 0 3 consumer1 (Some source7) 2 0 [1, 2] ([], 0)) = [9, 11]"
  by (simp add: horizons_of_def hour_def timedelta_truediv_def divide_and_round_def)

section \<open>Sign translation\<close>


section \<open>The loops over connections and groups\<close>

lemmas example_defs =
  example_env_def example_address_def consumer1_def producer2_def missing3_def source7_def
  empty_session_def hour_def

lemma one_or_none_filter:
  "one_or_none (filter P xs) = Inr (Some a) \<Longrightarrow> P a"
proof -
  assume h: "one_or_none (filter P xs) = Inr (Some a)"
  have "filter P xs = [a]"
    using h by (cases "filter P xs" rule: one_or_none.cases) simp_all
  then have "a \<in> set (filter P xs)" by simp
  then show "P a" by simp
qed

lemma one_or_none_raises:
  "one_or_none xs = Inl e \<Longrightarrow> e = MultipleResultsFound"
  by (cases xs rule: one_or_none.cases) simp_all

text \<open>
  What the body of the loop does for a connection whose address parses, whose asset is
  in the account of the user and has a row: the two sign checks, then the measurements.
\<close>

lemma post_connection_resolved:
  assumes "validate_entity_address env c ''connection'' = Some conn"
    and "asset_id conn \<in> set ids"
    and "one_or_none (filter (\<lambda>a. a_id a = asset_id conn) (asset_rows env)) = Inr (Some a)"
  shows "post_connection env ids data_source horizon rolling start duration vg c acc =
     (if is_pure_consumer a \<and> list_ex (\<lambda>v. v < 0) vg
      then Returned (power_value_too_small
             [''Connection '' @ entity_address a
              @ '' is registered as a pure consumer and can only receive non-negative values.''])
      else if is_pure_producer a \<and> list_ex (\<lambda>v. v > 0) vg
      then Returned (power_value_too_big
             [''Connection '' @ entity_address a
              @ '' is registered as a pure producer and can only receive non-positive values.''])
      else (case power_loop horizon rolling start duration a data_source (int (length vg)) 0 vg
                   (fst acc, start) of
              Inl e \<Rightarrow> Raised e
            | Inr (power_measurements, end_dt) \<Rightarrow>
                Continue (power_measurements,
                  if end_dt > start
                  then snd acc @ make_forecasting_jobs env ''Power'' (asset_id conn) start end_dt
                  else snd acc)))"
  using assms by (simp add: post_connection_def)

lemma post_connection_Continue:
  assumes "post_connection env ids data_source horizon rolling start duration vg c acc = Continue acc'"
  shows "fst acc' = fst acc @ spec_measurements env data_source horizon rolling start duration c vg
       \<and> length (fst acc') = length (fst acc) + length vg"
proof -
  from assms obtain conn where conn: "validate_entity_address env c ''connection'' = Some conn"
    by (auto simp: post_connection_def split: option.splits)
  from assms conn have member: "asset_id conn \<in> set ids"
    by (auto simp: post_connection_def split: if_splits)
  from assms conn member obtain a where
    a: "one_or_none (filter (\<lambda>a. a_id a = asset_id conn) (asset_rows env)) = Inr (Some a)"
    by (auto simp: post_connection_def split: sum.splits option.splits)
  from a have aid: "a_id a = asset_id conn" by (rule one_or_none_filter)
  from assms obtain pm e where
    run: "power_loop horizon rolling start duration a data_source (int (length vg)) 0 vg
            (fst acc, start) = Inr (pm, e)"
    and acc': "fst acc' = pm"
    unfolding post_connection_resolved [OF conn member a]
    by (auto split: if_splits sum.splits prod.splits)
  show ?thesis
  proof (cases data_source)
    case None
    with run have "vg = []" and "pm = fst acc"
      by (auto simp: power_loop_group_None split: if_splits)
    with acc' None conn show ?thesis by (simp add: spec_measurements_def)
  next
    case (Some ds)
    with run have "pm = fst acc @ map (spec_power horizon rolling start duration (a_id a) (ds_id ds)
                     (length vg)) (List.enumerate 0 vg)"
      by (simp add: power_loop_group)
    with acc' Some conn aid show ?thesis by (simp add: spec_measurements_def)
  qed
qed

lemma connection_loop_Continue:
  "connection_loop env ids data_source horizon rolling start duration vg cg acc = Continue acc' \<Longrightarrow>
   fst acc' = fst acc @ concat (map (\<lambda>c. spec_measurements env data_source horizon rolling start duration c vg) cg)
   \<and> length (fst acc') = length (fst acc) + length cg * length vg"
proof (induction cg arbitrary: acc)
  case Nil
  then show ?case by simp
next
  case (Cons c cg)
  from Cons.prems obtain acc1 where
    one: "post_connection env ids data_source horizon rolling start duration vg c acc = Continue acc1"
    and rest: "connection_loop env ids data_source horizon rolling start duration vg cg acc1 = Continue acc'"
    by (auto split: outcome.splits)
  note first = post_connection_Continue [OF one] and more = Cons.IH [OF rest]
  have rows: "fst acc' = fst acc @ concat (map (\<lambda>c. spec_measurements env data_source horizon
                 rolling start duration c vg) (c # cg))"
    unfolding conjunct1 [OF more] conjunct1 [OF first] by simp
  have count: "length (fst acc') = length (fst acc) + length (c # cg) * length vg"
    unfolding conjunct2 [OF more] conjunct2 [OF first] by simp
  from rows count show ?case by blast
qed

lemma group_loop_Continue:
  "group_loop env ids data_source horizon rolling start duration pairs acc = Continue acc' \<Longrightarrow>
   fst acc' = fst acc @ concat (map (\<lambda>(cg, vg). concat (map (\<lambda>c. spec_measurements env data_source horizon rolling start duration c vg) cg)) pairs)
   \<and> length (fst acc') = length (fst acc) + sum_list (map (\<lambda>(cg, vg). length cg * length vg) pairs)"
proof (induction pairs arbitrary: acc)
  case Nil
  then show ?case by simp
next
  case (Cons p pairs)
  obtain cg vg where p: "p = (cg, vg)" by (cases p)
  from Cons.prems p obtain acc1 where
    one: "connection_loop env ids data_source horizon rolling start duration vg cg acc = Continue acc1"
    and rest: "group_loop env ids data_source horizon rolling start duration pairs acc1 = Continue acc'"
    by (auto split: outcome.splits)
  note first = connection_loop_Continue [OF one] and more = Cons.IH [OF rest]
  have rows: "fst acc' = fst acc @ concat (map (\<lambda>(cg, vg). concat (map (\<lambda>c.
                 spec_measurements env data_source horizon rolling start duration c vg) cg))
                 (p # pairs))"
    unfolding conjunct1 [OF more] conjunct1 [OF first] p by simp
  have count: "length (fst acc') =
                 length (fst acc) + sum_list (map (\<lambda>(cg, vg). length cg * length vg) (p # pairs))"
    unfolding conjunct2 [OF more] conjunct2 [OF first] p by simp
  from rows count show ?case by blast
qed

lemma connection_loop_append:
  "connection_loop env ids data_source horizon rolling start duration vg cpre acc = Continue acc1 \<Longrightarrow>
   connection_loop env ids data_source horizon rolling start duration vg (cpre @ rest) acc =
   connection_loop env ids data_source horizon rolling start duration vg rest acc1"
  by (induction cpre arbitrary: acc) (auto split: outcome.splits)

lemma group_loop_append:
  "group_loop env ids data_source horizon rolling start duration earlier acc = Continue acc1 \<Longrightarrow>
   group_loop env ids data_source horizon rolling start duration (earlier @ rest) acc =
   group_loop env ids data_source horizon rolling start duration rest acc1"
  by (induction earlier arbitrary: acc) (auto split: outcome.splits)

lemma group_loop_Returned:
  assumes "group_loop env ids data_source horizon rolling start duration earlier acc = Continue acc1"
    and "connection_loop env ids data_source horizon rolling start duration vg cpre acc1 = Continue acc2"
    and "post_connection env ids data_source horizon rolling start duration vg c acc2 = Returned r"
  shows "group_loop env ids data_source horizon rolling start duration
           (earlier @ (cpre @ c # cpost, vg) # later) acc = Returned r"
  unfolding group_loop_append [OF assms(1)]
  by (simp add: connection_loop_append [OF assms(2)] assms(3))

section \<open>The batch of a request\<close>

text \<open>
  C10. In every ingestion request whose loops run to their end, every connection of a
  connection group is assigned the whole paired value group: the batch is, pair by pair
  and connection by connection, one measurement per value index \<open>j\<close>, with the datetime
  \<open>start + j \<cdot> duration / N\<close>, the negated value, and the ids of the asset and of the data
  source. So the number of measurements in the batch is the sum over the pairs of
  \<open>|connectionGroup\<^sub>i| \<cdot> |valueGroup\<^sub>i|\<close>, and this batch is what the pipeline writes.
\<close>

theorem batch_of_request:
  assumes "one_or_none (filter (\<lambda>d. ds_user d = current_user env) (data_source_rows env)) = Inr data_source"
    and "group_loop env (map a_id (get_assets env)) data_source horizon rolling start duration
           (zip cgs vgs) ([], []) = Continue (pm, fj)"
  shows "pm = concat (map (\<lambda>(cg, vg). concat (map (\<lambda>c.
                 spec_measurements env data_source horizon rolling start duration c vg) cg)) (zip cgs vgs))
       \<and> length pm = sum_list (map (\<lambda>(cg, vg). length cg * length vg) (zip cgs vgs))
       \<and> create_connection_and_value_groups env s unit cgs vgs horizon rolling start duration =
           save_measurements env pm fj s"
proof -
  note built = group_loop_Continue [OF assms(2)]
  have rows: "pm = concat (map (\<lambda>(cg, vg). concat (map (\<lambda>c.
                 spec_measurements env data_source horizon rolling start duration c vg) cg)) (zip cgs vgs))"
    using conjunct1 [OF built] by simp
  have count: "length pm = sum_list (map (\<lambda>(cg, vg). length cg * length vg) (zip cgs vgs))"
    using conjunct2 [OF built] by simp
  have saved: "create_connection_and_value_groups env s unit cgs vgs horizon rolling start duration =
           save_measurements env pm fj s"
    using assms by (simp add: create_connection_and_value_groups_def)
  from rows count saved show ?thesis by blast
qed

theorem batch_of_request_witness:
  "\<exists>pm fj.
     group_loop (example_env '''') (map a_id (get_assets (example_env ''''))) (Some source7)
       (2 * hour) False 0 hour
       (zip [[''ea1.2018-06.com.a1-bvp:1:1''], [''ea1.2018-06.com.a1-bvp:1:2'']] [[1, 2], [- 1, - 2]])
       ([], []) = Continue (pm, fj)
     \<and> length pm = 4
     \<and> map p_value pm = [- 1, - 2, 1, 2]
     \<and> map p_datetime pm = [0, 1800000000, 0, 1800000000]
     \<and> map p_asset_id pm = [1, 1, 2, 2]"
proof -
  let ?env = "example_env ''''"
  let ?pm = "[\<lparr>p_datetime = 0, p_value = - 1, p_horizon = 5400000000, p_asset_id = 1, p_data_source_id = 7\<rparr>,
              \<lparr>p_datetime = 1800000000, p_value = - 2, p_horizon = 7200000000, p_asset_id = 1, p_data_source_id = 7\<rparr>,
              \<lparr>p_datetime = 0, p_value = 1, p_horizon = 5400000000, p_asset_id = 2, p_data_source_id = 7\<rparr>,
              \<lparr>p_datetime = 1800000000, p_value = 2, p_horizon = 7200000000, p_asset_id = 2, p_data_source_id = 7\<rparr>]"
  let ?fj = "[\<lparr>j_kind = ''Power'', j_asset_id = 1, j_start = 0, j_end = 1800000000\<rparr>,
              \<lparr>j_kind = ''Power'', j_asset_id = 2, j_start = 0, j_end = 1800000000\<rparr>]"
  have ds: "one_or_none (filter (\<lambda>d. ds_user d = current_user ?env) (data_source_rows ?env))
              = Inr (Some source7)"
    by (simp add: example_defs)
  have run: "group_loop ?env (map a_id (get_assets ?env)) (Some source7) (2 * hour) False 0 hour
       (zip [[''ea1.2018-06.com.a1-bvp:1:1''], [''ea1.2018-06.com.a1-bvp:1:2'']] [[1, 2], [- 1, - 2]])
       ([], []) = Continue (?pm, ?fj)"
    by (simp add: example_defs post_connection_def timedelta_truediv_def divide_and_round_def)
  from batch_of_request [OF ds run, of empty_session "''MW''"]
  have "length ?pm = sum_list (map (\<lambda>(cg, vg). length cg * length vg)
          (zip [[''ea1.2018-06.com.a1-bvp:1:1''], [''ea1.2018-06.com.a1-bvp:1:2'']] [[1, 2], [- 1, - 2 :: rat]]))"
    by blast
  then have "length ?pm = 4" by simp
  with run show ?thesis by (intro exI [of _ ?pm] exI [of _ ?fj]) simp
qed

section \<open>Sign validation\<close>

text \<open>
  The responses with which the loops leave the request are rejections, and the loops can
  only run to their end when the body has gone on for every connection of every pair.
\<close>

lemma post_connection_Returned_rejects:
  "post_connection env ids data_source horizon rolling start duration vg c acc = Returned r \<Longrightarrow>
   snd r = 400"
  by (auto simp: post_connection_def invalid_domain_def unrecognized_connection_group_def
      power_value_too_small_def power_value_too_big_def
      split: option.splits if_splits sum.splits prod.splits)

lemma connection_loop_Returned_rejects:
  "connection_loop env ids data_source horizon rolling start duration vg cg acc = Returned r \<Longrightarrow>
   snd r = 400"
  by (induction cg arbitrary: acc)
     (auto split: outcome.splits dest: post_connection_Returned_rejects)

lemma group_loop_Returned_rejects:
  "group_loop env ids data_source horizon rolling start duration pairs acc = Returned r \<Longrightarrow>
   snd r = 400"
  by (induction pairs arbitrary: acc)
     (auto split: outcome.splits dest: connection_loop_Returned_rejects)

lemma connection_loop_Continue_each:
  "connection_loop env ids data_source horizon rolling start duration vg cg acc = Continue acc' \<Longrightarrow>
   c \<in> set cg \<Longrightarrow>
   \<exists>a a'. post_connection env ids data_source horizon rolling start duration vg c a = Continue a'"
  by (induction cg arbitrary: acc) (auto split: outcome.splits)

lemma group_loop_Continue_each:
  "group_loop env ids data_source horizon rolling start duration pairs acc = Continue acc' \<Longrightarrow>
   (cg, vg) \<in> set pairs \<Longrightarrow> c \<in> set cg \<Longrightarrow>
   \<exists>a a'. post_connection env ids data_source horizon rolling start duration vg c a = Continue a'"
proof (induction pairs arbitrary: acc)
  case Nil
  then show ?case by simp
next
  case (Cons p pairs)
  obtain cg' vg' where p: "p = (cg', vg')" by (cases p)
  from Cons.prems(1) p obtain acc1 where
    one: "connection_loop env ids data_source horizon rolling start duration vg' cg' acc = Continue acc1"
    and rest: "group_loop env ids data_source horizon rolling start duration pairs acc1 = Continue acc'"
    by (auto split: outcome.splits)
  show ?case
  proof (cases "(cg, vg) = p")
    case True
    with p have "cg' = cg" and "vg' = vg" by simp_all
    with one have "connection_loop env ids data_source horizon rolling start duration vg cg acc
                     = Continue acc1" by simp
    from connection_loop_Continue_each [OF this Cons.prems(3)] show ?thesis .
  next
    case False
    with Cons.prems(2) have "(cg, vg) \<in> set pairs" by simp
    from Cons.IH [OF rest this Cons.prems(3)] show ?thesis .
  qed
qed

text \<open>
  C3, as amended. Take an ingestion request and a connection of it that resolves to an
  asset which is a pure consumer while the paired value group holds a negative value, or
  a pure producer while the group holds a positive value. Then, wherever the connection
  sits in the request and whatever happens to the connections before it, nothing of the
  request is written (the session is left as it was found) and the request is not
  answered with \<open>PROCESSED\<close>. Which failure is reported is decided by the first
  connection that is not processed to its end: when the lookup of the data source does
  not raise and every connection before this one (in the earlier groups, and earlier in
  its own group) is processed to its end (its address parses, its asset is in the account
  and has a row, its values pass the sign checks, and its measurements are built, for
  which a non-empty value group needs the data source of the writer), the response is
  \<open>PowerValueTooSmall\<close> if the asset is a pure consumer with a negative value, and
  \<open>PowerValueTooBig\<close> otherwise.
\<close>

theorem sign_violation_rejects_request:
  assumes "validate_entity_address env c ''connection'' = Some conn"
    and "asset_id conn \<in> set (map a_id (get_assets env))"
    and "one_or_none (filter (\<lambda>a. a_id a = asset_id conn) (asset_rows env)) = Inr (Some a)"
    and "is_pure_consumer a \<and> list_ex (\<lambda>v. v < 0) vg
         \<or> is_pure_producer a \<and> list_ex (\<lambda>v. 0 < v) vg"
  shows "snd (create_connection_and_value_groups env s unit
                (map fst earlier @ (cpre @ c # cpost) # cgs) (map snd earlier @ vg # vgs)
                horizon rolling start duration) = s
       \<and> (\<forall>args. fst (create_connection_and_value_groups env s unit
                (map fst earlier @ (cpre @ c # cpost) # cgs) (map snd earlier @ vg # vgs)
                horizon rolling start duration) \<noteq> Inr (request_processed args))
       \<and> (one_or_none (filter (\<lambda>d. ds_user d = current_user env) (data_source_rows env))
              = Inr data_source
          \<and> group_loop env (map a_id (get_assets env)) data_source horizon rolling start duration
              earlier ([], []) = Continue built
          \<and> connection_loop env (map a_id (get_assets env)) data_source horizon rolling start
              duration vg cpre built = Continue reached
          \<longrightarrow>
            create_connection_and_value_groups env s unit
              (map fst earlier @ (cpre @ c # cpost) # cgs) (map snd earlier @ vg # vgs)
              horizon rolling start duration =
            (if is_pure_consumer a \<and> list_ex (\<lambda>v. v < 0) vg
             then (Inr (power_value_too_small
                     [''Connection '' @ entity_address a
                      @ '' is registered as a pure consumer and can only receive non-negative values.'']),
                   s)
             else (Inr (power_value_too_big
                     [''Connection '' @ entity_address a
                      @ '' is registered as a pure producer and can only receive non-positive values.'']),
                   s)))"
proof -
  let ?ids = "map a_id (get_assets env)"
  let ?created = "create_connection_and_value_groups env s unit
                (map fst earlier @ (cpre @ c # cpost) # cgs) (map snd earlier @ vg # vgs)
                horizon rolling start duration"
  let ?small = "power_value_too_small
                     [''Connection '' @ entity_address a
                      @ '' is registered as a pure consumer and can only receive non-negative values.'']"
  let ?big = "power_value_too_big
                     [''Connection '' @ entity_address a
                      @ '' is registered as a pure producer and can only receive non-positive values.'']"
  have pairs: "zip (map fst earlier @ (cpre @ c # cpost) # cgs) (map snd earlier @ vg # vgs) =
                 earlier @ (cpre @ c # cpost, vg) # zip cgs vgs"
    by (simp add: zip_map_fst_snd)
  note body = post_connection_resolved [OF assms(1) assms(2) assms(3)]
  have stops: "post_connection env ?ids ds horizon rolling start duration vg c acc =
                 Returned (if is_pure_consumer a \<and> list_ex (\<lambda>v. v < 0) vg then ?small else ?big)"
    for ds acc
    unfolding body using assms(4) by auto
  have never: "group_loop env ?ids ds horizon rolling start duration
                 (earlier @ (cpre @ c # cpost, vg) # zip cgs vgs) ([], []) \<noteq> Continue done_acc"
    for ds done_acc
  proof
    assume "group_loop env ?ids ds horizon rolling start duration
              (earlier @ (cpre @ c # cpost, vg) # zip cgs vgs) ([], []) = Continue done_acc"
    from group_loop_Continue_each [OF this, of "cpre @ c # cpost" vg c]
    obtain x x' where "post_connection env ?ids ds horizon rolling start duration vg c x = Continue x'"
      by auto
    then show False by (simp add: stops)
  qed
  have unwritten: "snd ?created = s"
  proof (cases "one_or_none (filter (\<lambda>d. ds_user d = current_user env) (data_source_rows env))")
    case (Inl e)
    then show ?thesis by (simp add: create_connection_and_value_groups_def)
  next
    case (Inr ds)
    show ?thesis
    proof (cases "group_loop env ?ids ds horizon rolling start duration
                    (earlier @ (cpre @ c # cpost, vg) # zip cgs vgs) ([], [])")
      case (Raised e)
      with Inr show ?thesis by (simp add: create_connection_and_value_groups_def pairs)
    next
      case (Returned r)
      with Inr show ?thesis by (simp add: create_connection_and_value_groups_def pairs)
    next
      case (Continue done_acc)
      with never show ?thesis by blast
    qed
  qed
  have refused: "fst ?created \<noteq> Inr (request_processed args)" for args
  proof (cases "one_or_none (filter (\<lambda>d. ds_user d = current_user env) (data_source_rows env))")
    case (Inl e)
    then show ?thesis by (simp add: create_connection_and_value_groups_def)
  next
    case (Inr ds)
    show ?thesis
    proof (cases "group_loop env ?ids ds horizon rolling start duration
                    (earlier @ (cpre @ c # cpost, vg) # zip cgs vgs) ([], [])")
      case (Raised e)
      with Inr show ?thesis by (simp add: create_connection_and_value_groups_def pairs)
    next
      case (Returned r)
      then have "snd r = 400" by (rule group_loop_Returned_rejects)
      then have "r \<noteq> request_processed args" by (auto simp: request_processed_def)
      with Inr Returned show ?thesis by (simp add: create_connection_and_value_groups_def pairs)
    next
      case (Continue done_acc)
      with never show ?thesis by blast
    qed
  qed
  have kind: "?created = (if is_pure_consumer a \<and> list_ex (\<lambda>v. v < 0) vg
                          then (Inr ?small, s) else (Inr ?big, s))"
    if ds: "one_or_none (filter (\<lambda>d. ds_user d = current_user env) (data_source_rows env))
              = Inr data_source"
    and g: "group_loop env ?ids data_source horizon rolling start duration earlier ([], [])
              = Continue built"
    and l: "connection_loop env ?ids data_source horizon rolling start duration vg cpre built
              = Continue reached"
  proof -
    from group_loop_Returned [OF g l stops, of cpost "zip cgs vgs"]
    show ?thesis
      by (simp add: create_connection_and_value_groups_def ds pairs)
  qed
  from unwritten refused kind show ?thesis by blast
qed


theorem sign_violation_rejects_request_witness:
  "create_connection_and_value_groups (example_env '''') empty_session ''MW''
     [[''ea1.2018-06.com.a1-bvp:1:2''],
      [''ea1.2018-06.com.a1-bvp:1:2'', ''ea1.2018-06.com.a1-bvp:1:1'', ''ea1.2018-06.com.a1-bvp:1:2''],
      [''ea1.2018-06.com.a1-bvp:1:1'']]
     [[- 3], [- 5], [4]] (2 * hour) False 0 hour =
   (Inr (power_value_too_small
          [''Connection ea1.2018-06.com.a1-bvp:1:1 is registered as a pure consumer and can only receive non-negative values.'']),
    empty_session)
   \<and> snd (create_connection_and_value_groups (example_env '''') empty_session ''MW''
          [[''bogus''], [''ea1.2018-06.com.a1-bvp:1:1'']] [[5], [- 5]] (2 * hour) False 0 hour)
       = empty_session"
proof -
  let ?env = "example_env ''''"
  let ?row1 = "\<lparr>p_datetime = 0, p_value = 3, p_horizon = 7200000000, p_asset_id = 2,
                 p_data_source_id = 7\<rparr>"
  let ?row2 = "\<lparr>p_datetime = 0, p_value = 5, p_horizon = 7200000000, p_asset_id = 2,
                 p_data_source_id = 7\<rparr>"
  have ds: "one_or_none (filter (\<lambda>d. ds_user d = current_user ?env) (data_source_rows ?env))
              = Inr (Some source7)"
    by (simp add: example_defs)
  have g: "group_loop ?env (map a_id (get_assets ?env)) (Some source7) (2 * hour) False 0 hour
             [([''ea1.2018-06.com.a1-bvp:1:2''], [- 3])] ([], []) = Continue ([?row1], [])"
    by (simp add: example_defs post_connection_def timedelta_truediv_def divide_and_round_def)
  have l: "connection_loop ?env (map a_id (get_assets ?env)) (Some source7) (2 * hour) False 0 hour
             [- 5] [''ea1.2018-06.com.a1-bvp:1:2''] ([?row1], []) = Continue ([?row1, ?row2], [])"
    by (simp add: example_defs post_connection_def timedelta_truediv_def divide_and_round_def)
  have v: "validate_entity_address ?env ''ea1.2018-06.com.a1-bvp:1:1'' ''connection''
             = Some \<lparr>owner_id = 1, asset_id = 1\<rparr>"
    by (simp add: example_defs)
  have m: "asset_id \<lparr>owner_id = 1, asset_id = 1\<rparr> \<in> set (map a_id (get_assets ?env))"
    by (simp add: example_defs)
  have r: "one_or_none (filter (\<lambda>a. a_id a = asset_id \<lparr>owner_id = 1, asset_id = 1\<rparr>) (asset_rows ?env))
             = Inr (Some consumer1)"
    by (simp add: example_defs)
  have bad: "is_pure_consumer consumer1 \<and> list_ex (\<lambda>v. v < 0) [- 5 :: rat]
             \<or> is_pure_producer consumer1 \<and> list_ex (\<lambda>v. 0 < v) [- 5 :: rat]"
    by (simp add: consumer1_def)
  note first =
    sign_violation_rejects_request [OF v m r bad,
      where earlier = "[([''ea1.2018-06.com.a1-bvp:1:2''], [- 3])]"
        and cpre = "[''ea1.2018-06.com.a1-bvp:1:2'']" and cpost = "[''ea1.2018-06.com.a1-bvp:1:2'']"
        and cgs = "[[''ea1.2018-06.com.a1-bvp:1:1'']]" and vgs = "[[4]]"
        and s = empty_session and unit = "''MW''" and horizon = "2 * hour" and rolling = False
        and start = 0 and duration = hour and data_source = "Some source7"
        and built = "([?row1], [])" and reached = "([?row1, ?row2], [])"]
  have a: "create_connection_and_value_groups ?env empty_session ''MW''
     [[''ea1.2018-06.com.a1-bvp:1:2''],
      [''ea1.2018-06.com.a1-bvp:1:2'', ''ea1.2018-06.com.a1-bvp:1:1'', ''ea1.2018-06.com.a1-bvp:1:2''],
      [''ea1.2018-06.com.a1-bvp:1:1'']]
     [[- 3], [- 5], [4]] (2 * hour) False 0 hour =
   (Inr (power_value_too_small
          [''Connection ea1.2018-06.com.a1-bvp:1:1 is registered as a pure consumer and can only receive non-negative values.'']),
    empty_session)"
    using first ds g l by (simp add: consumer1_def)
  note second =
    sign_violation_rejects_request [OF v m r bad,
      where earlier = "[([''bogus''], [5])]" and cpre = "[]" and cpost = "[]"
        and cgs = "[]" and vgs = "[]"
        and s = empty_session and unit = "''MW''" and horizon = "2 * hour" and rolling = False
        and start = 0 and duration = hour]
  have b: "snd (create_connection_and_value_groups ?env empty_session ''MW''
          [[''bogus''], [''ea1.2018-06.com.a1-bvp:1:1'']] [[5], [- 5]] (2 * hour) False 0 hour)
       = empty_session"
    using second by simp
  from a b show ?thesis by blast
qed

text \<open>
  The claim as stated fails in the response it names when an earlier connection is
  rejected first: with the producer of the account in the first group, given a positive
  value, and the consumer in the second, given a negative one, the request is answered
  with \<open>PowerValueTooBig\<close>, although a pure consumer of the request has a negative value.
  Nothing is written there either.
\<close>

theorem first_failure_wins_counterexample:
  "create_connection_and_value_groups (example_env '''') empty_session ''MW''
     [[''ea1.2018-06.com.a1-bvp:1:2''], [''ea1.2018-06.com.a1-bvp:1:1'']] [[5], [- 5]]
     (2 * hour) False 0 hour =
   (Inr (power_value_too_big
          [''Connection ea1.2018-06.com.a1-bvp:1:2 is registered as a pure producer and can only receive non-positive values.'']),
    empty_session)
   \<and> status_of (power_value_too_big
          [''Connection ea1.2018-06.com.a1-bvp:1:2 is registered as a pure producer and can only receive non-positive values.''])
       = Some (PStr ''POWER_VALUE_TOO_BIG'')
   \<and> validate_entity_address (example_env '''') ''ea1.2018-06.com.a1-bvp:1:1'' ''connection''
       = Some \<lparr>owner_id = 1, asset_id = 1\<rparr>
   \<and> 1 \<in> set (map a_id (get_assets (example_env '''')))
   \<and> one_or_none (filter (\<lambda>a. a_id a = 1) (asset_rows (example_env ''''))) = Inr (Some consumer1)
   \<and> is_pure_consumer consumer1
   \<and> list_ex (\<lambda>v. v < 0) [- 5 :: rat]"
  by (simp add: create_connection_and_value_groups_def post_connection_def example_defs
      power_value_too_big_def status_of_def)

section \<open>Empty value groups\<close>

lemma post_connection_never_divides_by_zero:
  "post_connection env ids data_source horizon rolling start duration vg c acc
     \<noteq> Raised ZeroDivisionError"
proof
  assume h: "post_connection env ids data_source horizon rolling start duration vg c acc
               = Raised ZeroDivisionError"
  from h obtain conn where conn: "validate_entity_address env c ''connection'' = Some conn"
    by (auto simp: post_connection_def split: option.splits)
  from h conn have member: "asset_id conn \<in> set ids"
    by (auto simp: post_connection_def split: if_splits)
  show False
  proof (cases "one_or_none (filter (\<lambda>a. a_id a = asset_id conn) (asset_rows env))")
    case (Inl e)
    then have "e = MultipleResultsFound" by (rule one_or_none_raises)
    with h conn member Inl show False by (simp add: post_connection_def)
  next
    case (Inr found)
    show False
    proof (cases found)
      case None
      with h conn member Inr show False by (simp add: post_connection_def)
    next
      case (Some a)
      with Inr have a: "one_or_none (filter (\<lambda>a. a_id a = asset_id conn) (asset_rows env))
                          = Inr (Some a)" by simp
      from h have "power_loop horizon rolling start duration a data_source (int (length vg)) 0 vg
                     (fst acc, start) = Inl ZeroDivisionError"
        unfolding post_connection_resolved [OF conn member a]
        by (auto split: if_splits sum.splits prod.splits)
      then show False by (simp add: power_loop_never_divides_by_zero)
    qed
  qed
qed

lemma connection_loop_never_divides_by_zero:
  "connection_loop env ids data_source horizon rolling start duration vg cg acc
     \<noteq> Raised ZeroDivisionError"
  by (induction cg arbitrary: acc)
     (auto split: outcome.splits simp: post_connection_never_divides_by_zero)

lemma group_loop_never_divides_by_zero:
  "group_loop env ids data_source horizon rolling start duration pairs acc
     \<noteq> Raised ZeroDivisionError"
  by (induction pairs arbitrary: acc)
     (auto split: outcome.splits simp: connection_loop_never_divides_by_zero)

lemma save_to_database_raises:
  "save_to_database objects overwrite s = Inl e \<Longrightarrow> e = IntegrityError"
  by (auto simp: save_to_database_def bulk_save_objects_def split: if_splits)

lemma save_measurements_never_divides_by_zero:
  "fst (save_measurements env pm fj s) \<noteq> Inl ZeroDivisionError"
  by (auto simp: save_measurements_def try_save_def Let_def
      split: sum.splits prod.splits option.splits if_splits dest: save_to_database_raises)

text \<open>
  C9. An empty value group is no error and contributes nothing: for a connection that
  resolves to an asset, the body of the loop leaves the measurements and the forecasting
  jobs as they were, whatever the flags of the asset and whether or not a data source
  was found (no sign rejection, no measurement, no job). And no request at all makes the
  pipeline raise \<open>ZeroDivisionError\<close>: the division by the length of the group is only
  evaluated inside the loop over its values.
\<close>

theorem empty_value_group_is_noop:
  assumes "validate_entity_address env c ''connection'' = Some conn"
    and "asset_id conn \<in> set ids"
    and "one_or_none (filter (\<lambda>a. a_id a = asset_id conn) (asset_rows env)) = Inr (Some a)"
  shows "post_connection env ids data_source horizon rolling start duration [] c (pm, fj) =
           Continue (pm, fj)
       \<and> fst (create_connection_and_value_groups env s unit cgs vgs horizon rolling start duration)
           \<noteq> Inl ZeroDivisionError"
proof -
  have noop: "post_connection env ids data_source horizon rolling start duration [] c (pm, fj) =
                Continue (pm, fj)"
    unfolding post_connection_resolved [OF assms] by simp
  have total: "fst (create_connection_and_value_groups env s unit cgs vgs horizon rolling start duration)
                 \<noteq> Inl ZeroDivisionError"
  proof (cases "one_or_none (filter (\<lambda>d. ds_user d = current_user env) (data_source_rows env))")
    case (Inl e)
    then have "e = MultipleResultsFound" by (rule one_or_none_raises)
    with Inl show ?thesis by (simp add: create_connection_and_value_groups_def)
  next
    case (Inr data_source')
    show ?thesis
    proof (cases "group_loop env (map a_id (get_assets env)) data_source' horizon rolling start
                    duration (zip cgs vgs) ([], [])")
      case (Raised e)
      with group_loop_never_divides_by_zero
        [of env "map a_id (get_assets env)" data_source' horizon rolling start duration
            "zip cgs vgs" "([], [])"]
      have "e \<noteq> ZeroDivisionError" by simp
      with Inr Raised show ?thesis by (simp add: create_connection_and_value_groups_def)
    next
      case (Returned r)
      with Inr show ?thesis by (simp add: create_connection_and_value_groups_def)
    next
      case (Continue built)
      with Inr show ?thesis
        by (cases built)
           (simp add: create_connection_and_value_groups_def save_measurements_never_divides_by_zero)
    qed
  qed
  from noop total show ?thesis by blast
qed

theorem empty_value_group_is_noop_witness:
  "post_connection (example_env '''') [1, 2, 3] None (2 * hour) False 0 hour []
     ''ea1.2018-06.com.a1-bvp:1:1'' ([], []) = Continue ([], [])
   \<and> create_connection_and_value_groups (example_env '''') empty_session ''MW''
        [[''ea1.2018-06.com.a1-bvp:1:1'']] [[]] (2 * hour) False 0 hour =
      (Inr (request_processed []), empty_session)"
proof -
  let ?env = "example_env ''''"
  have v: "validate_entity_address ?env ''ea1.2018-06.com.a1-bvp:1:1'' ''connection''
             = Some \<lparr>owner_id = 1, asset_id = 1\<rparr>"
    by (simp add: example_defs)
  have m: "asset_id \<lparr>owner_id = 1, asset_id = 1\<rparr> \<in> set [1, 2, 3]"
    by simp
  have r: "one_or_none (filter (\<lambda>a. a_id a = asset_id \<lparr>owner_id = 1, asset_id = 1\<rparr>) (asset_rows ?env))
             = Inr (Some consumer1)"
    by (simp add: example_defs)
  from empty_value_group_is_noop [OF v m r]
  have "post_connection ?env [1, 2, 3] None (2 * hour) False 0 hour []
          ''ea1.2018-06.com.a1-bvp:1:1'' ([], []) = Continue ([], [])"
    by blast
  moreover have "create_connection_and_value_groups ?env empty_session ''MW''
        [[''ea1.2018-06.com.a1-bvp:1:1'']] [[]] (2 * hour) False 0 hour =
      (Inr (request_processed []), empty_session)"
    by (simp add: create_connection_and_value_groups_def post_connection_def example_defs
        save_measurements_def try_save_def save_to_database_def bulk_save_objects_def
        commit_def List.map_filter_def)
  ultimately show ?thesis by blast
qed

section \<open>An asset of the account without a row\<close>

text \<open>
  C6. The claim wants \<open>UnrecognizedConnectionGroup\<close> when the asset id of a parsed
  address is in the account of the user but the asset table has no row for it. Both
  pipelines take the \<^verbatim>\<open>None\<close> that \<^verbatim>\<open>one_or_none\<close> returns and read an attribute of it: the
  request ends with an unhandled \<^verbatim>\<open>AttributeError\<close>.
\<close>

theorem missing_asset_row_crashes:
  "create_connection_and_value_groups (example_env '''') empty_session ''MW''
     [[''ea1.2018-06.com.a1-bvp:1:3'']] [[1]] (2 * hour) False 0 hour =
     (Inl AttributeError, empty_session)
   \<and> collect_connection_and_value_groups (example_env '''') ''MW'' ''PT15M'' (Some (2 * hour), Some 0)
       0 hour [[''ea1.2018-06.com.a1-bvp:1:3'']] None [] False = Inl AttributeError
   \<and> validate_entity_address (example_env '''') ''ea1.2018-06.com.a1-bvp:1:3'' ''connection''
       = Some \<lparr>owner_id = 1, asset_id = 3\<rparr>
   \<and> 3 \<in> set (map a_id (get_assets (example_env '''')))
   \<and> one_or_none (filter (\<lambda>a. a_id a = 3) (asset_rows (example_env ''''))) = Inr None"
  by (simp add: create_connection_and_value_groups_def collect_connection_and_value_groups_def
      post_connection_def example_defs)

section \<open>Conflicts with stored measurements\<close>

lemma find_by_filter:
  "find P xs = (case filter P xs of [] \<Rightarrow> None | x # _ \<Rightarrow> Some x)"
  by (induction xs) simp_all

lemma find_after_none:
  "find P xs = None \<Longrightarrow> find P (xs @ ys) = find P ys"
  by (induction xs) (auto split: if_splits)

lemma merge_same_key:
  assumes "primary_key o1 = Some k"
  shows "find (\<lambda>r. primary_key r = Some k) (transaction (merge o1 s)) = Some o1"
proof (cases "Some k \<in> set (map primary_key (transaction s))")
  case True
  have "find (\<lambda>r. primary_key r = Some k)
          (map (\<lambda>r. if primary_key r = Some k then o1 else r) rows) = Some o1"
    if "Some k \<in> set (map primary_key rows)" for rows
    using that assms by (induction rows) auto
  with True assms show ?thesis by (simp add: merge_def)
next
  case False
  have "find (\<lambda>r. primary_key r = Some k) (rows @ [o1]) = Some o1"
    if "Some k \<notin> set (map primary_key rows)" for rows
    using that assms by (induction rows) auto
  with False assms show ?thesis by (simp add: merge_def)
qed

lemma merge_other_key:
  assumes "primary_key o1 \<noteq> Some k"
  shows "filter (\<lambda>r. primary_key r = Some k) (transaction (merge o1 s)) =
         filter (\<lambda>r. primary_key r = Some k) (transaction s)"
proof (cases "primary_key o1")
  case None
  with assms show ?thesis by (simp add: merge_def)
next
  case (Some k')
  with assms have ne: "k' \<noteq> k" by simp
  have "filter (\<lambda>r. primary_key r = Some k)
          (map (\<lambda>r. if primary_key r = Some k' then o1 else r) rows) =
        filter (\<lambda>r. primary_key r = Some k) rows" for rows
    using ne Some by (induction rows) auto
  with Some assms show ?thesis by (simp add: merge_def)
qed

lemma merge_all_latest:
  "list_ex (\<lambda>o1. primary_key o1 = Some k) objects \<Longrightarrow>
   find (\<lambda>r. primary_key r = Some k) (transaction (foldl (\<lambda>s' o1. merge o1 s') s objects)) =
   find (\<lambda>r. primary_key r = Some k) (rev objects)"
proof (induction objects rule: rev_induct)
  case Nil
  then show ?case by simp
next
  case (snoc o1 objects)
  show ?case
  proof (cases "primary_key o1 = Some k")
    case True
    then show ?thesis by (simp add: merge_same_key)
  next
    case False
    with snoc.prems have "list_ex (\<lambda>o1. primary_key o1 = Some k) objects" by simp
    from snoc.IH [OF this] False show ?thesis
      by (simp add: find_by_filter merge_other_key)
  qed
qed

text \<open>
  C2. When the bulk insert of the measurements raises the uniqueness violation, the
  session is rolled back whatever the mode, and only then the mode decides. Outside the
  mode \<open>play\<close> the request is answered with \<open>AlreadyReceivedAndSuccessfullyProcessed\<close> and
  the session is the rolled-back one, whose committed rows are those found. In the mode
  \<open>play\<close> the same measurements and jobs are merged into the rolled-back session and
  committed, the request is answered with \<open>PROCESSED\<close>, and for every measurement of the
  batch the row stored under its key is the measurement of the batch with that key (the
  last one, should the batch hold several).
\<close>

theorem conflict_handling:
  assumes "one_or_none (filter (\<lambda>d. ds_user d = current_user env) (data_source_rows env)) = Inr data_source"
    and "group_loop env (map a_id (get_assets env)) data_source horizon rolling start duration
           (zip cgs vgs) ([], []) = Continue (pm, fj)"
    and "save_to_database (map PowerObject pm) False s = Inl IntegrityError"
  shows "create_connection_and_value_groups env s unit cgs vgs horizon rolling start duration =
           (if BVP_MODE env = ''play''
            then (Inr (request_processed []),
                  commit (foldl (\<lambda>s' o1. merge o1 s') (rollback s)
                            (map PowerObject pm @ map JobObject fj)))
            else (Inr (already_received_and_successfully_processed []), rollback s))
       \<and> committed (rollback s) = committed s
       \<and> transaction (rollback s) = committed s
       \<and> (BVP_MODE env = ''play'' \<longrightarrow>
            (\<forall>p \<in> set pm.
               find (\<lambda>r. primary_key r = primary_key (PowerObject p))
                 (committed (snd (create_connection_and_value_groups env s unit cgs vgs horizon
                                    rolling start duration))) =
               find (\<lambda>r. primary_key r = primary_key (PowerObject p)) (rev (map PowerObject pm))))"
proof -
  let ?merged = "foldl (\<lambda>s' o1. merge o1 s') (rollback s) (map PowerObject pm @ map JobObject fj)"
  have result: "create_connection_and_value_groups env s unit cgs vgs horizon rolling start duration =
           (if BVP_MODE env = ''play''
            then (Inr (request_processed []), commit ?merged)
            else (Inr (already_received_and_successfully_processed []), rollback s))"
    using assms
    by (simp add: create_connection_and_value_groups_def save_measurements_def try_save_def
        save_to_database_def Let_def)
  have kept: "committed (rollback s) = committed s" "transaction (rollback s) = committed s"
    by (simp_all add: rollback_def)
  have stored: "find (\<lambda>r. primary_key r = primary_key (PowerObject p)) (committed (commit ?merged)) =
                find (\<lambda>r. primary_key r = primary_key (PowerObject p)) (rev (map PowerObject pm))"
    if p: "p \<in> set pm" for p
  proof -
    let ?k = "(p_datetime p, p_asset_id p)"
    have key: "primary_key (PowerObject p) = Some ?k" by simp
    have ex: "list_ex (\<lambda>o1. primary_key o1 = Some ?k) (map PowerObject pm @ map JobObject fj)"
    proof -
      from p have "PowerObject p \<in> set (map PowerObject pm @ map JobObject fj)" by simp
      with key show ?thesis unfolding list_ex_iff by blast
    qed
    have jobs: "find (\<lambda>r. primary_key r = Some ?k) (rev (map JobObject fj)) = None"
      by (simp add: find_None_iff)
    have "find (\<lambda>r. primary_key r = Some ?k) (transaction ?merged) =
          find (\<lambda>r. primary_key r = Some ?k) (rev (map PowerObject pm @ map JobObject fj))"
      by (rule merge_all_latest [OF ex])
    also have "\<dots> = find (\<lambda>r. primary_key r = Some ?k) (rev (map PowerObject pm))"
      using jobs by (simp add: find_after_none)
    finally show ?thesis unfolding key by (simp add: commit_def)
  qed
  from result kept stored show ?thesis by auto
qed

theorem conflict_handling_witness:
  "create_connection_and_value_groups (example_env ''play'') stored_session ''MW''
     [[''ea1.2018-06.com.a1-bvp:1:1'']] [[3]] (2 * hour) False 0 hour =
   (Inr (request_processed []),
    \<lparr>committed = [PowerObject \<lparr>p_datetime = 0, p_value = - 3, p_horizon = 2 * hour,
                               p_asset_id = 1, p_data_source_id = 7\<rparr>],
     transaction = [PowerObject \<lparr>p_datetime = 0, p_value = - 3, p_horizon = 2 * hour,
                                 p_asset_id = 1, p_data_source_id = 7\<rparr>]\<rparr>)
   \<and> create_connection_and_value_groups (example_env '''') stored_session ''MW''
     [[''ea1.2018-06.com.a1-bvp:1:1'']] [[3]] (2 * hour) False 0 hour =
   (Inr (already_received_and_successfully_processed []), stored_session)"
proof -
  let ?pm = "[\<lparr>p_datetime = 0, p_value = - 3, p_horizon = 2 * hour, p_asset_id = 1,
               p_data_source_id = 7\<rparr>]"
  have ds: "one_or_none (filter (\<lambda>d. ds_user d = current_user (example_env mode))
              (data_source_rows (example_env mode))) = Inr (Some source7)" for mode
    by (simp add: example_defs)
  have run: "group_loop (example_env mode) (map a_id (get_assets (example_env mode))) (Some source7)
               (2 * hour) False 0 hour (zip [[''ea1.2018-06.com.a1-bvp:1:1'']] [[3]]) ([], [])
             = Continue (?pm, [])" for mode
    by (simp add: example_defs post_connection_def timedelta_truediv_def divide_and_round_def)
  have conflict: "save_to_database (map PowerObject ?pm) False stored_session = Inl IntegrityError"
    by (simp add: save_to_database_def bulk_save_objects_def stored_session_def
        List.map_filter_def hour_def)
  note play = conflict_handling [OF ds run conflict, of "''play''" "''MW''"]
  note strict = conflict_handling [OF ds run conflict, of "''''" "''MW''"]
  have a: "create_connection_and_value_groups (example_env ''play'') stored_session ''MW''
     [[''ea1.2018-06.com.a1-bvp:1:1'']] [[3]] (2 * hour) False 0 hour =
   (Inr (request_processed []),
    \<lparr>committed = [PowerObject \<lparr>p_datetime = 0, p_value = - 3, p_horizon = 2 * hour,
                               p_asset_id = 1, p_data_source_id = 7\<rparr>],
     transaction = [PowerObject \<lparr>p_datetime = 0, p_value = - 3, p_horizon = 2 * hour,
                                 p_asset_id = 1, p_data_source_id = 7\<rparr>]\<rparr>)"
    unfolding conjunct1 [OF play]
    by (simp add: example_env_def stored_session_def rollback_def commit_def merge_def hour_def)
  have b: "create_connection_and_value_groups (example_env '''') stored_session ''MW''
     [[''ea1.2018-06.com.a1-bvp:1:1'']] [[3]] (2 * hour) False 0 hour =
   (Inr (already_received_and_successfully_processed []), stored_session)"
    unfolding conjunct1 [OF strict]
    by (simp add: example_env_def stored_session_def rollback_def)
  from a b show ?thesis by blast
qed

end
